theory Spec2Isabelle
  imports Complex_Main "HOL-Library.Word" "HOL-Library.Signed_Division"
begin

unbundle bit_operations_syntax

section \<open>Numbers and errors\<close>

text \<open>
  A C++ \<^verbatim>\<open>double\<close> is modelled as an exact real number or one of the three
  non-finite IEEE values. Rounding of finite results, overflow to infinity and the sign
  of zero are not modelled: arithmetic on finite values is exact real arithmetic.
\<close>

datatype double = Fin real | PInf | MInf | NaN

fun std_isfinite :: "double \<Rightarrow> bool" where
  "std_isfinite (Fin r) = True"
| "std_isfinite PInf = False"
| "std_isfinite MInf = False"
| "std_isfinite NaN = False"

fun dneg :: "double \<Rightarrow> double" where
  "dneg (Fin r) = Fin (- r)"
| "dneg PInf = MInf"
| "dneg MInf = PInf"
| "dneg NaN = NaN"

fun dadd :: "double \<Rightarrow> double \<Rightarrow> double" where
  "dadd (Fin a) (Fin b) = Fin (a + b)"
| "dadd NaN b = NaN"
| "dadd a NaN = NaN"
| "dadd PInf MInf = NaN"
| "dadd MInf PInf = NaN"
| "dadd PInf b = PInf"
| "dadd a PInf = PInf"
| "dadd MInf b = MInf"
| "dadd a MInf = MInf"

definition dsub :: "double \<Rightarrow> double \<Rightarrow> double" where
  "dsub a b = dadd a (dneg b)"

fun dmul :: "double \<Rightarrow> double \<Rightarrow> double" where
  "dmul (Fin a) (Fin b) = Fin (a * b)"
| "dmul NaN b = NaN"
| "dmul a NaN = NaN"
| "dmul PInf (Fin b) = (if b = 0 then NaN else if 0 < b then PInf else MInf)"
| "dmul MInf (Fin b) = (if b = 0 then NaN else if 0 < b then MInf else PInf)"
| "dmul (Fin a) PInf = (if a = 0 then NaN else if 0 < a then PInf else MInf)"
| "dmul (Fin a) MInf = (if a = 0 then NaN else if 0 < a then MInf else PInf)"
| "dmul PInf PInf = PInf"
| "dmul MInf MInf = PInf"
| "dmul PInf MInf = MInf"
| "dmul MInf PInf = MInf"

fun ddiv :: "double \<Rightarrow> double \<Rightarrow> double" where
  "ddiv (Fin a) (Fin b) =
     (if b = 0 then (if a = 0 then NaN else if 0 < a then PInf else MInf)
      else Fin (a / b))"
| "ddiv NaN b = NaN"
| "ddiv a NaN = NaN"
| "ddiv (Fin a) PInf = Fin 0"
| "ddiv (Fin a) MInf = Fin 0"
| "ddiv PInf (Fin b) = (if 0 \<le> b then PInf else MInf)"
| "ddiv MInf (Fin b) = (if 0 \<le> b then MInf else PInf)"
| "ddiv PInf PInf = NaN"
| "ddiv PInf MInf = NaN"
| "ddiv MInf PInf = NaN"
| "ddiv MInf MInf = NaN"

text \<open>The comparison \<^verbatim>\<open>a < b\<close> of two doubles: false as soon as one is NaN.\<close>

fun dless :: "double \<Rightarrow> double \<Rightarrow> bool" where
  "dless (Fin a) (Fin b) = (a < b)"
| "dless NaN b = False"
| "dless a NaN = False"
| "dless MInf MInf = False"
| "dless MInf b = True"
| "dless a MInf = False"
| "dless PInf b = False"
| "dless a PInf = True"

text \<open>The comparison \<^verbatim>\<open>a >= b\<close>.\<close>

fun dge :: "double \<Rightarrow> double \<Rightarrow> bool" where
  "dge (Fin a) (Fin b) = (b \<le> a)"
| "dge NaN b = False"
| "dge a NaN = False"
| "dge PInf b = True"
| "dge a PInf = False"
| "dge a MInf = True"
| "dge MInf b = False"

text \<open>\<^verbatim>\<open>std::ceil\<close> on doubles.\<close>

fun std_ceil :: "double \<Rightarrow> double" where
  "std_ceil (Fin r) = Fin (of_int \<lceil>r\<rceil>)"
| "std_ceil PInf = PInf"
| "std_ceil MInf = MInf"
| "std_ceil NaN = NaN"

text \<open>
  \<^verbatim>\<open>std::round\<close> rounds halfway cases away from zero (HOL's \<^const>\<open>round\<close>
  rounds them up), and \<^verbatim>\<open>std::lround\<close> is the same value as an integer.
\<close>

definition std_lround :: "real \<Rightarrow> int" where
  "std_lround x = (if 0 \<le> x then \<lfloor>x + 1 / 2\<rfloor> else \<lceil>x - 1 / 2\<rceil>)"

definition std_round :: "real \<Rightarrow> real" where
  "std_round x = of_int (std_lround x)"

definition std_floor :: "real \<Rightarrow> real" where
  "std_floor x = of_int \<lfloor>x\<rfloor>"

text \<open>
  The rounding of a real number to a double: to the nearest double, and to the one with
  the even significand when two are equally near. A double has a significand of 53
  bits, so the doubles next to \<open>r\<close> are \<open>2 ^ (e - 52)\<close> apart, where
  \<open>2 ^ e \<le> |r| < 2 ^ (e + 1)\<close>; below \<open>2 ^ - 1022\<close> they are \<open>2 ^ - 1074\<close> apart.
  The overflow to an infinity is not modelled. The sums, differences, products and
  quotients above are exact; the rounding is written where a result depends on it.
\<close>

definition double_ulp :: "real \<Rightarrow> real" where
  "double_ulp r = power_int 2 (max \<lfloor>log 2 \<bar>r\<bar>\<rfloor> (- 1022) - 52)"

definition round_to_double :: "real \<Rightarrow> real" where
  "round_to_double r =
     (if r = 0 then 0
      else
        let u = double_ulp r;
            n = \<lfloor>r / u\<rfloor>;
            f = r / u - of_int n
        in (if f < 1 / 2 \<or> (f = 1 / 2 \<and> even n) then of_int n else of_int (n + 1)) * u)"

text \<open>
  The C++ exceptions the code throws, with their messages. \<open>undefined_behaviour\<close> is
  no exception: it marks the places where the C++ has no defined result (an access to an
  empty \<^verbatim>\<open>std::stack\<close>, an unchecked array read out of range).
\<close>

datatype error =
  invalid_argument string
| runtime_error string
| undefined_behaviour

text \<open>
  A call that may throw, followed by the rest of the function: an exception ends the
  function and is its result.
\<close>

definition and_then :: "error + 'a \<Rightarrow> ('a \<Rightarrow> error + 'b) \<Rightarrow> error + 'b" where
  "and_then r f = (case r of Inl e \<Rightarrow> Inl e | Inr x \<Rightarrow> f x)"

section \<open>The cairo context, as far as the renderer uses it\<close>

datatype cairo_antialias_t =
  CAIRO_ANTIALIAS_DEFAULT
| CAIRO_ANTIALIAS_NONE
| CAIRO_ANTIALIAS_GRAY
| CAIRO_ANTIALIAS_SUBPIXEL
| CAIRO_ANTIALIAS_FAST
| CAIRO_ANTIALIAS_GOOD
| CAIRO_ANTIALIAS_BEST

text \<open>
  The surface types \<^verbatim>\<open>has_vector_surface\<close> names; every other value of cairo's
  enumeration is \<open>CAIRO_SURFACE_TYPE_OTHER\<close> with its number.
\<close>

datatype cairo_surface_type_t =
  CAIRO_SURFACE_TYPE_IMAGE
| CAIRO_SURFACE_TYPE_XLIB
| CAIRO_SURFACE_TYPE_PDF
| CAIRO_SURFACE_TYPE_PS
| CAIRO_SURFACE_TYPE_SVG
| CAIRO_SURFACE_TYPE_RECORDING
| CAIRO_SURFACE_TYPE_SCRIPT
| CAIRO_SURFACE_TYPE_OTHER nat

type_synonym uint8_t = "8 word"

text \<open>
  A surface: its type and, for an image surface, the pixel bytes
  (\<^verbatim>\<open>cairo_image_surface_get_data\<close>) and the length of a row in bytes
  (\<^verbatim>\<open>cairo_image_surface_get_stride\<close>).
\<close>

record cairo_surface_t =
  surface_type :: cairo_surface_type_t
  surface_data :: "uint8_t list"
  surface_stride :: int

type_synonym rgba_t = "real \<times> real \<times> real \<times> real"

record cairo_matrix_t =
  m_xx :: double
  m_yx :: double
  m_xy :: double
  m_yy :: double
  m_x0 :: double
  m_y0 :: double

text \<open>A clip set on the context: a rectangle (x, y, w, h) or a path handle.\<close>

datatype clip_t = ClipRectangle real real real real | ClipPath nat

text \<open>The part of cairo's graphics state that \<^verbatim>\<open>cairo_save\<close> saves.\<close>

record cairo_gstate =
  gs_source :: rgba_t
  gs_antialias :: cairo_antialias_t
  gs_line_width :: real
  gs_clip :: "clip_t list"

datatype antialias_t = AA_enum cairo_antialias_t | AA_bool bool

record AdditionalState =
  alpha :: "real option"
  antialias :: antialias_t
  clip_rectangle :: "(real \<times> real \<times> real \<times> real) option"
  clip_path :: "nat option"
  hatch :: "string option"
  hatch_color :: rgba_t
  hatch_linewidth :: real
  sketch :: "(real \<times> real \<times> real) option"
  snap :: bool

datatype cairo_status_t = CAIRO_STATUS_SUCCESS | CAIRO_STATUS_INVALID_RESTORE

text \<open>
  An element of a path: a header with its points (a \<^verbatim>\<open>cairo_path_data_t\<close> header
  followed by its point entries).
\<close>

datatype cairo_path_data_t =
  PATH_MOVE_TO double double
| PATH_LINE_TO double double
| PATH_CURVE_TO double double double double double double
| PATH_CLOSE_PATH

text \<open>
  A cairo context: the current graphics state, the states saved by
  \<^verbatim>\<open>cairo_save\<close>, the status, the target surface, and the user data stored under
  \<^verbatim>\<open>STATE_KEY\<close>: the stack of additional states, top first (\<open>None\<close> when the
  context carries no such data). Then the current path, in device coordinates, the
  current point if there is one, and the start of the current sub-path.
\<close>

record cairo_t =
  gstate :: cairo_gstate
  saved :: "cairo_gstate list"
  status :: cairo_status_t
  target :: cairo_surface_t
  state_stack :: "AdditionalState list option"
  path :: "cairo_path_data_t list"
  current_point :: "(double \<times> double) option"
  last_move_point :: "double \<times> double"

definition cairo_save :: "cairo_t \<Rightarrow> cairo_t" where
  "cairo_save cr = cr\<lparr>saved := gstate cr # saved cr\<rparr>"

text \<open>A restore without a matching save puts the context in an error status.\<close>

definition cairo_restore :: "cairo_t \<Rightarrow> cairo_t" where
  "cairo_restore cr =
     (case saved cr of
        [] \<Rightarrow> cr\<lparr>status := CAIRO_STATUS_INVALID_RESTORE\<rparr>
      | g # gs \<Rightarrow> cr\<lparr>gstate := g, saved := gs\<rparr>)"

record GraphicsContextRenderer =
  gcr_cr :: cairo_t
  gcr_width :: int
  gcr_height :: int
  gcr_dpi :: real

section \<open>Affine transform adapter\<close>

text \<open>
  A two-dimensional array of doubles with its shape; \<open>elem a i j\<close> is the unchecked
  read \<^verbatim>\<open>a(i, j)\<close>.
\<close>

record ndarray =
  shape0 :: nat
  shape1 :: nat
  elem :: "nat \<Rightarrow> nat \<Rightarrow> double"

text \<open>
  A transform object: the truth value of its \<^verbatim>\<open>is_affine\<close> attribute
  (\<open>None\<close> when the object has no such attribute) and the array it converts to.
\<close>

record py_transform =
  is_affine :: "bool option"
  as_array :: ndarray

definition matrix_from_transform :: "py_transform \<Rightarrow> double \<Rightarrow> error + cairo_matrix_t" where
  "matrix_from_transform transform y0 =
     (if \<not> (case is_affine transform of None \<Rightarrow> True | Some b \<Rightarrow> b)
      then Inl (invalid_argument ''Only affine transforms are handled'')
      else
        let py_matrix = as_array transform in
        if shape0 py_matrix \<noteq> 3 \<or> shape1 py_matrix \<noteq> 3
        then Inl (invalid_argument ''Transformation matrix must have shape (3, 3)'')
        else Inr \<lparr>
          m_xx = elem py_matrix 0 0, m_yx = dneg (elem py_matrix 1 0),
          m_xy = elem py_matrix 0 1, m_yy = dneg (elem py_matrix 1 1),
          m_x0 = elem py_matrix 0 2, m_y0 = dsub y0 (elem py_matrix 1 2)\<rparr>)"

section \<open>Scoped additional context\<close>

definition get_additional_state :: "GraphicsContextRenderer \<Rightarrow> error + AdditionalState" where
  "get_additional_state gcr =
     (case state_stack (gcr_cr gcr) of
        None \<Rightarrow> Inl undefined_behaviour
      | Some [] \<Rightarrow> Inl undefined_behaviour
      | Some (s # rest) \<Rightarrow> Inr s)"

definition get_rgba :: "GraphicsContextRenderer \<Rightarrow> error + rgba_t" where
  "get_rgba gcr =
     (case gs_source (gstate (gcr_cr gcr)) of (r, g, b, a) \<Rightarrow>
        (case get_additional_state gcr of
           Inl e \<Rightarrow> Inl e
         | Inr state \<Rightarrow>
             (case alpha state of
                Some al \<Rightarrow> Inr (r, g, b, al)
              | None \<Rightarrow> Inr (r, g, b, a))))"

text \<open>
  The constant \<^verbatim>\<open>1. / 3\<close> of the source: the quotient is rounded to the nearest
  double, which is \<open>6004799503160661 / 2 ^ 54\<close>, that is
  \<open>(2 ^ 54 - 1) / (3 * 2 ^ 54)\<close>. The line width is a double, and doubles are compared
  exactly.
\<close>

definition one_third :: real where
  "one_third = 6004799503160661 / 2 ^ 54"

text \<open>The antialiasing mode the constructor of the additional context sets.\<close>

definition resolve_antialias :: "antialias_t \<Rightarrow> real \<Rightarrow> cairo_antialias_t" where
  "resolve_antialias aa lw =
     (case aa of
        AA_enum a \<Rightarrow> a
      | AA_bool b \<Rightarrow>
          (if b then (if lw < one_third then CAIRO_ANTIALIAS_BEST else CAIRO_ANTIALIAS_FAST)
           else CAIRO_ANTIALIAS_NONE))"

definition cairo_set_antialias :: "cairo_antialias_t \<Rightarrow> cairo_t \<Rightarrow> cairo_t" where
  "cairo_set_antialias a cr = cr\<lparr>gstate := (gstate cr)\<lparr>gs_antialias := a\<rparr>\<rparr>"

definition cairo_set_source_rgba :: "rgba_t \<Rightarrow> cairo_t \<Rightarrow> cairo_t" where
  "cairo_set_source_rgba c cr = cr\<lparr>gstate := (gstate cr)\<lparr>gs_source := c\<rparr>\<rparr>"

definition cairo_clip :: "clip_t \<Rightarrow> cairo_t \<Rightarrow> cairo_t" where
  "cairo_clip c cr = cr\<lparr>gstate := (gstate cr)\<lparr>gs_clip := c # gs_clip (gstate cr)\<rparr>\<rparr>"

text \<open>
  The constructor of \<^verbatim>\<open>AdditionalContext\<close>: save, force the alpha, set the
  antialiasing, clip. The line width is read after the save, from the current state.
\<close>

definition AdditionalContext :: "GraphicsContextRenderer \<Rightarrow> error + GraphicsContextRenderer" where
  "AdditionalContext gcr =
     (let cr = cairo_save (gcr_cr gcr) in
      case get_rgba gcr of
        Inl e \<Rightarrow> Inl e
      | Inr rgba \<Rightarrow>
          let cr = cairo_set_source_rgba rgba cr in
          (case get_additional_state gcr of
             Inl e \<Rightarrow> Inl e
           | Inr state \<Rightarrow>
               let cr = cairo_set_antialias
                          (resolve_antialias (antialias state) (gs_line_width (gstate cr))) cr;
                   cr = (case clip_rectangle state of
                           None \<Rightarrow> cr
                         | Some (x, y, w, h) \<Rightarrow>
                             cairo_clip (ClipRectangle x (real_of_int (gcr_height gcr) - h - y) w h) cr);
                   cr = (case clip_path state of
                           None \<Rightarrow> cr
                         | Some p \<Rightarrow> cairo_clip (ClipPath p) cr)
               in Inr (gcr\<lparr>gcr_cr := cr\<rparr>)))"

text \<open>The destructor of \<^verbatim>\<open>AdditionalContext\<close>.\<close>

definition AdditionalContext_exit :: "GraphicsContextRenderer \<Rightarrow> GraphicsContextRenderer" where
  "AdditionalContext_exit gcr = gcr\<lparr>gcr_cr := cairo_restore (gcr_cr gcr)\<rparr>"

section \<open>Pixel snapping\<close>

text \<open>
  The two snapping functions of \<^verbatim>\<open>load_path_exact\<close>, on doubles.

  \<^verbatim>\<open>std::floor(x) + .5\<close>: the floor \<open>n\<close> of a double is a double, and the sum is
  rounded to the nearest double, to the one with the even significand when two are
  equally near. For \<open>- 2 ^ 52 \<le> n < 2 ^ 52\<close> the sum \<open>n + 1/2\<close> is a double (below
  \<open>2 ^ 52\<close> in magnitude the doubles are at most \<open>1/2\<close> apart), so nothing is rounded.
  Outside that range the doubles are integers: where they are \<open>1\<close> apart (magnitudes up
  to \<open>2 ^ 53\<close>) the sum lies halfway between \<open>n\<close> and \<open>n + 1\<close> and is rounded to the
  even one of the two; beyond, \<open>n\<close> is even, its neighbours are at least \<open>2\<close> away,
  and the sum is rounded back to \<open>n\<close>.

  \<^verbatim>\<open>std::round(x)\<close> is exact: the nearest integer of a double is a double.
\<close>

definition snap_half :: "real \<Rightarrow> real" where
  "snap_half x =
     (let n = \<lfloor>x\<rfloor> in
      if - (2 ^ 52) \<le> n \<and> n < 2 ^ 52 then of_int n + 1 / 2
      else if even n then of_int n
      else of_int (n + 1))"

definition snap_round :: "real \<Rightarrow> real" where
  "snap_round x = std_round x"

text \<open>The snapper of the general overload (the path has codes).\<close>

definition snapper_general :: "bool \<Rightarrow> real \<Rightarrow> real \<Rightarrow> real" where
  "snapper_general snp lw =
     (if snp
      then (if 0 < lw \<and> (lw < 1 \<or> std_lround lw smod 2 = 1) then snap_half else snap_round)
      else (\<lambda>x. x))"

text \<open>The snapper of the codeless overload; the caller applies it only when snapping is on.\<close>

definition snapper_codeless :: "real \<Rightarrow> real \<Rightarrow> real" where
  "snapper_codeless lw =
     (if lw < 1 \<or> std_lround lw smod 2 = 1 then snap_half else snap_round)"

section \<open>Graphics state stack\<close>

text \<open>
  \<^verbatim>\<open>cr_from_image_args\<close>: a fresh ARGB32 image surface (four bytes a pixel, zeroed)
  and a fresh context on it, with cairo's defaults. Sizes that cairo rejects are not
  modelled.
\<close>

definition cr_from_image_args :: "int \<Rightarrow> int \<Rightarrow> cairo_t" where
  "cr_from_image_args width height =
     \<lparr>gstate = \<lparr>gs_source = (0, 0, 0, 1), gs_antialias = CAIRO_ANTIALIAS_DEFAULT,
                 gs_line_width = 2, gs_clip = []\<rparr>,
      saved = [],
      status = CAIRO_STATUS_SUCCESS,
      target = \<lparr>surface_type = CAIRO_SURFACE_TYPE_IMAGE,
                 surface_data = replicate (nat (4 * width * height)) 0,
                 surface_stride = 4 * width\<rparr>,
      state_stack = None,
      path = [],
      current_point = None,
      last_move_point = (Fin 0, Fin 0)\<rparr>"

text \<open>
  The constructor from a context: it stores a new stack holding the base state under
  \<^verbatim>\<open>STATE_KEY\<close>. The two hatch defaults are read from the rc parameters and are
  arguments here.
\<close>

definition new_GraphicsContextRenderer ::
  "cairo_t \<Rightarrow> int \<Rightarrow> int \<Rightarrow> real \<Rightarrow> rgba_t \<Rightarrow> real \<Rightarrow> GraphicsContextRenderer" where
  "new_GraphicsContextRenderer cr width height dpi rc_hatch_color rc_hatch_linewidth =
     \<lparr>gcr_cr = cr\<lparr>state_stack := Some [
        \<lparr>alpha = None,
         antialias = AA_bool True,
         clip_rectangle = None,
         clip_path = None,
         hatch = None,
         hatch_color = rc_hatch_color,
         hatch_linewidth = rc_hatch_linewidth,
         sketch = None,
         snap = True\<rparr>]\<rparr>,
      gcr_width = width, gcr_height = height, gcr_dpi = dpi\<rparr>"

text \<open>
  An assignment through the reference \<^verbatim>\<open>get_additional_state()\<close> returns: it
  changes the top of the stack.
\<close>

definition update_additional_state ::
  "(AdditionalState \<Rightarrow> AdditionalState) \<Rightarrow> GraphicsContextRenderer
     \<Rightarrow> error + GraphicsContextRenderer" where
  "update_additional_state f gcr =
     (case state_stack (gcr_cr gcr) of
        None \<Rightarrow> Inl undefined_behaviour
      | Some [] \<Rightarrow> Inl undefined_behaviour
      | Some (s # rest) \<Rightarrow> Inr (gcr\<lparr>gcr_cr := (gcr_cr gcr)\<lparr>state_stack := Some (f s # rest)\<rparr>\<rparr>))"

definition set_snap :: "bool option \<Rightarrow> GraphicsContextRenderer \<Rightarrow> error + GraphicsContextRenderer" where
  "set_snap snp gcr =
     update_additional_state
       (\<lambda>s. s\<lparr>snap := (case snp of None \<Rightarrow> True | Some b \<Rightarrow> b)\<rparr>) gcr"

definition new_gc :: "GraphicsContextRenderer \<Rightarrow> error + GraphicsContextRenderer" where
  "new_gc gcr =
     (let cr = cairo_save (gcr_cr gcr) in
      case state_stack cr of
        None \<Rightarrow> Inl undefined_behaviour
      | Some [] \<Rightarrow> Inl undefined_behaviour
      | Some (s # rest) \<Rightarrow> Inr (gcr\<lparr>gcr_cr := cr\<lparr>state_stack := Some (s # s # rest)\<rparr>\<rparr>))"

text \<open>\<^verbatim>\<open>restore\<close> pops the stack, whatever its depth, then restores the context.\<close>

definition restore :: "GraphicsContextRenderer \<Rightarrow> error + GraphicsContextRenderer" where
  "restore gcr =
     (case state_stack (gcr_cr gcr) of
        None \<Rightarrow> Inl undefined_behaviour
      | Some [] \<Rightarrow> Inl undefined_behaviour
      | Some (s # rest) \<Rightarrow>
          Inr (gcr\<lparr>gcr_cr := cairo_restore ((gcr_cr gcr)\<lparr>state_stack := Some rest\<rparr>)\<rparr>))"

datatype stack_op = New_gc | Restore

fun run_ops :: "stack_op list \<Rightarrow> GraphicsContextRenderer \<Rightarrow> error + GraphicsContextRenderer" where
  "run_ops [] gcr = Inr gcr"
| "run_ops (New_gc # ops) gcr =
     (case new_gc gcr of Inl e \<Rightarrow> Inl e | Inr gcr' \<Rightarrow> run_ops ops gcr')"
| "run_ops (Restore # ops) gcr =
     (case restore gcr of Inl e \<Rightarrow> Inl e | Inr gcr' \<Rightarrow> run_ops ops gcr')"

text \<open>
  \<open>balanced d ops\<close>: started \<open>d\<close> states above some state of the stack, the
  operations never pop that state; \<open>surplus d ops\<close> is how many states above it they
  leave.
\<close>

fun balanced :: "nat \<Rightarrow> stack_op list \<Rightarrow> bool" where
  "balanced d [] = True"
| "balanced d (New_gc # ops) = balanced (Suc d) ops"
| "balanced d (Restore # ops) = (0 < d \<and> balanced (d - 1) ops)"

fun surplus :: "nat \<Rightarrow> stack_op list \<Rightarrow> nat" where
  "surplus d [] = d"
| "surplus d (New_gc # ops) = surplus (Suc d) ops"
| "surplus d (Restore # ops) = surplus (d - 1) ops"

definition depth :: "GraphicsContextRenderer \<Rightarrow> nat" where
  "depth gcr = (case state_stack (gcr_cr gcr) of None \<Rightarrow> 0 | Some sts \<Rightarrow> length sts)"

section \<open>Matrices, vertices and path collections\<close>

text \<open>
  \<^verbatim>\<open>cairo_matrix_transform_point\<close>, and the overload of
  \<^verbatim>\<open>matrix_from_transform\<close> that multiplies by a master matrix
  (\<^verbatim>\<open>cairo_matrix_multiply\<close>).
\<close>

definition cairo_matrix_transform_point ::
  "cairo_matrix_t \<Rightarrow> double \<times> double \<Rightarrow> double \<times> double" where
  "cairo_matrix_transform_point m p =
     (case p of (x, y) \<Rightarrow>
        (dadd (dadd (dmul (m_xx m) x) (dmul (m_xy m) y)) (m_x0 m),
         dadd (dadd (dmul (m_yx m) x) (dmul (m_yy m) y)) (m_y0 m)))"

definition cairo_matrix_multiply :: "cairo_matrix_t \<Rightarrow> cairo_matrix_t \<Rightarrow> cairo_matrix_t" where
  "cairo_matrix_multiply a b =
     \<lparr>m_xx = dadd (dmul (m_xx a) (m_xx b)) (dmul (m_yx a) (m_xy b)),
      m_yx = dadd (dmul (m_xx a) (m_yx b)) (dmul (m_yx a) (m_yy b)),
      m_xy = dadd (dmul (m_xy a) (m_xx b)) (dmul (m_yy a) (m_xy b)),
      m_yy = dadd (dmul (m_xy a) (m_yx b)) (dmul (m_yy a) (m_yy b)),
      m_x0 = dadd (dadd (dmul (m_x0 a) (m_xx b)) (dmul (m_y0 a) (m_xy b))) (m_x0 b),
      m_y0 = dadd (dadd (dmul (m_x0 a) (m_yx b)) (dmul (m_y0 a) (m_yy b))) (m_y0 b)\<rparr>"

definition matrix_from_transform_master ::
  "py_transform \<Rightarrow> cairo_matrix_t \<Rightarrow> error + cairo_matrix_t" where
  "matrix_from_transform_master transform master_matrix =
     (if \<not> (case is_affine transform of None \<Rightarrow> True | Some b \<Rightarrow> b)
      then Inl (invalid_argument ''Only affine transforms are handled'')
      else
        let py_matrix = as_array transform in
        if shape0 py_matrix \<noteq> 3 \<or> shape1 py_matrix \<noteq> 3
        then Inl (invalid_argument ''Transformation matrix must have shape (3, 3)'')
        else Inr (cairo_matrix_multiply
          \<lparr>m_xx = elem py_matrix 0 0, m_yx = elem py_matrix 1 0,
           m_xy = elem py_matrix 0 1, m_yy = elem py_matrix 1 1,
           m_x0 = elem py_matrix 0 2, m_y0 = elem py_matrix 1 2\<rparr> master_matrix))"

text \<open>The number of the unexpected type is left out of the message.\<close>

definition has_vector_surface :: "cairo_t \<Rightarrow> error + bool" where
  "has_vector_surface cr =
     (case surface_type (target cr) of
        CAIRO_SURFACE_TYPE_IMAGE \<Rightarrow> Inr False
      | CAIRO_SURFACE_TYPE_XLIB \<Rightarrow> Inr False
      | CAIRO_SURFACE_TYPE_PDF \<Rightarrow> Inr True
      | CAIRO_SURFACE_TYPE_PS \<Rightarrow> Inr True
      | CAIRO_SURFACE_TYPE_SVG \<Rightarrow> Inr True
      | CAIRO_SURFACE_TYPE_RECORDING \<Rightarrow> Inr True
      | CAIRO_SURFACE_TYPE_SCRIPT \<Rightarrow> Inr True
      | CAIRO_SURFACE_TYPE_OTHER n \<Rightarrow> Inl (invalid_argument ''Unexpected surface type''))"

text \<open>
  The unchecked read of row \<open>i\<close> of an array of vertices: outside the array it is
  undefined.
\<close>

definition vertex_at :: "ndarray \<Rightarrow> nat \<Rightarrow> error + double \<times> double" where
  "vertex_at vertices i =
     (if i < shape0 vertices \<and> 2 \<le> shape1 vertices
      then Inr (elem vertices i 0, elem vertices i 1)
      else Inl undefined_behaviour)"

text \<open>
  The conversion of a double to \<^verbatim>\<open>int\<close> truncates towards zero; it is undefined on
  a non-finite value, which the model maps to 0 (the one conversion below has its
  argument between 0 and 16).
\<close>

fun int_of_double :: "double \<Rightarrow> int" where
  "int_of_double (Fin r) = (if 0 \<le> r then \<lfloor>r\<rfloor> else \<lceil>r\<rceil>)"
| "int_of_double PInf = 0"
| "int_of_double MInf = 0"
| "int_of_double NaN = 0"

text \<open>
  The test \<^verbatim>\<open>std::isfinite(x) && std::isfinite(y)\<close>, with the two real numbers
  when it holds.
\<close>

definition finite_point :: "double \<times> double \<Rightarrow> (real \<times> real) option" where
  "finite_point p =
     (case p of (x, y) \<Rightarrow>
        if std_isfinite x \<and> std_isfinite y
        then (case x of Fin a \<Rightarrow> (case y of Fin b \<Rightarrow> Some (a, b) | _ \<Rightarrow> None) | _ \<Rightarrow> None)
        else None)"

record draw_path_collection_args =
  pc_gc_is_this :: bool
  pc_master_transform :: py_transform
  pc_n_paths :: nat
  pc_transforms :: "py_transform list"
  pc_offsets :: ndarray
  pc_offset_transform :: py_transform
  pc_offset_position :: string

primrec matrices_from_transforms ::
  "py_transform list \<Rightarrow> cairo_matrix_t \<Rightarrow> error + cairo_matrix_t list" where
  "matrices_from_transforms [] master_matrix = Inr []"
| "matrices_from_transforms (t # ts) master_matrix =
     (case matrix_from_transform_master t master_matrix of
        Inl e \<Rightarrow> Inl e
      | Inr m \<Rightarrow>
          (case matrices_from_transforms ts master_matrix of
             Inl e \<Rightarrow> Inl e
           | Inr ms \<Rightarrow> Inr (m # ms)))"

text \<open>
  \<^verbatim>\<open>draw_path_collection\<close>, as far as it decides how the call ends and what it
  leaves in the state. \<open>base_draw_path_collection\<close> stands for the implementation of
  the base class that the fallback calls. The conversions of colours and dashes and the
  loop that masks the cached patterns onto the surface are left out: they draw, and
  raise only for arguments that are not well formed.
\<close>

definition draw_path_collection ::
  "(GraphicsContextRenderer \<Rightarrow> error + GraphicsContextRenderer)
     \<Rightarrow> GraphicsContextRenderer \<Rightarrow> draw_path_collection_args
     \<Rightarrow> error + GraphicsContextRenderer" where
  "draw_path_collection base_draw_path_collection gcr0 args =
     and_then (get_additional_state gcr0) (\<lambda>state0.
     if (case hatch state0 of None \<Rightarrow> False | Some h \<Rightarrow> h \<noteq> [])
        \<or> pc_offset_position args = ''data''
     then base_draw_path_collection gcr0
     else if \<not> pc_gc_is_this args
     then Inl (invalid_argument ''Non-matching GraphicsContext'')
     else
     and_then (AdditionalContext gcr0) (\<lambda>gcr1.
     and_then (get_additional_state gcr1) (\<lambda>state.
     let old_snap = snap state in
     and_then (update_additional_state (\<lambda>s. s\<lparr>snap := False\<rparr>) gcr1) (\<lambda>gcr2.
     let n_paths = pc_n_paths args;
         n_offsets = shape0 (pc_offsets args) in
     if n_paths = 0 \<or> n_offsets = 0
     then Inr (AdditionalContext_exit gcr2)
     else
     and_then (matrix_from_transform (pc_master_transform args)
                 (Fin (real_of_int (gcr_height gcr2)))) (\<lambda>master_matrix.
     and_then (matrices_from_transforms (pc_transforms args) master_matrix) (\<lambda>matrices.
     if shape1 (pc_offsets args) \<noteq> 2
     then Inl (invalid_argument ''Invalid offsets shape'')
     else
     and_then (matrix_from_transform (pc_offset_transform args) (Fin 0)) (\<lambda>offset_matrix.
     and_then (has_vector_surface (gcr_cr gcr2)) (\<lambda>vector.
     and_then (update_additional_state (\<lambda>s. s\<lparr>snap := old_snap\<rparr>) gcr2) (\<lambda>gcr3.
     Inr (AdditionalContext_exit gcr3))))))))))"

section \<open>Region capture and restore\<close>















section \<open>Loading a path\<close>

subsection \<open>The path of a cairo context\<close>

text \<open>
  The functions of cairo that build the current path. While a path is loaded the
  transformation matrix of the context is the identity (\<^verbatim>\<open>LoadPathContext\<close> sets
  it, and sets it back at the end), so the coordinates given to these functions are
  device coordinates; the model has no transformation matrix. cairo keeps a path in
  fixed point; the model keeps the doubles it is given.
\<close>

definition cairo_new_path :: "cairo_t \<Rightarrow> cairo_t" where
  "cairo_new_path cr = cr\<lparr>path := [], current_point := None\<rparr>"

definition cairo_new_sub_path :: "cairo_t \<Rightarrow> cairo_t" where
  "cairo_new_sub_path cr = cr\<lparr>current_point := None\<rparr>"

definition cairo_move_to :: "double \<Rightarrow> double \<Rightarrow> cairo_t \<Rightarrow> cairo_t" where
  "cairo_move_to x y cr =
     cr\<lparr>path := path cr @ [PATH_MOVE_TO x y],
        current_point := Some (x, y),
        last_move_point := (x, y)\<rparr>"

text \<open>Without a current point, a line to a point is a move to it.\<close>

definition cairo_line_to :: "double \<Rightarrow> double \<Rightarrow> cairo_t \<Rightarrow> cairo_t" where
  "cairo_line_to x y cr =
     (case current_point cr of
        None \<Rightarrow> cairo_move_to x y cr
      | Some p \<Rightarrow> cr\<lparr>path := path cr @ [PATH_LINE_TO x y], current_point := Some (x, y)\<rparr>)"

text \<open>Without a current point, a curve starts with a move to its first control point.\<close>

definition cairo_curve_to ::
  "double \<Rightarrow> double \<Rightarrow> double \<Rightarrow> double \<Rightarrow> double \<Rightarrow> double \<Rightarrow> cairo_t \<Rightarrow> cairo_t" where
  "cairo_curve_to x1 y1 x2 y2 x3 y3 cr =
     (let cr1 = (case current_point cr of None \<Rightarrow> cairo_move_to x1 y1 cr | Some p \<Rightarrow> cr)
      in cr1\<lparr>path := path cr1 @ [PATH_CURVE_TO x1 y1 x2 y2 x3 y3],
             current_point := Some (x3, y3)\<rparr>)"

text \<open>
  Closing does nothing without a current point; otherwise the current point becomes
  the start of the sub-path.
\<close>

definition cairo_close_path :: "cairo_t \<Rightarrow> cairo_t" where
  "cairo_close_path cr =
     (case current_point cr of
        None \<Rightarrow> cr
      | Some p \<Rightarrow> cr\<lparr>path := path cr @ [PATH_CLOSE_PATH],
                      current_point := Some (last_move_point cr)\<rparr>)"

definition cairo_has_current_point :: "cairo_t \<Rightarrow> bool" where
  "cairo_has_current_point cr = (current_point cr \<noteq> None)"

definition cairo_get_current_point :: "cairo_t \<Rightarrow> double \<times> double" where
  "cairo_get_current_point cr =
     (case current_point cr of None \<Rightarrow> (Fin 0, Fin 0) | Some p \<Rightarrow> p)"

primrec cairo_append_path :: "cairo_path_data_t list \<Rightarrow> cairo_t \<Rightarrow> cairo_t" where
  "cairo_append_path [] cr = cr"
| "cairo_append_path (d # ds) cr =
     cairo_append_path ds
       (case d of
          PATH_MOVE_TO x y \<Rightarrow> cairo_move_to x y cr
        | PATH_LINE_TO x y \<Rightarrow> cairo_line_to x y cr
        | PATH_CURVE_TO x1 y1 x2 y2 x3 y3 \<Rightarrow> cairo_curve_to x1 y1 x2 y2 x3 y3 cr
        | PATH_CLOSE_PATH \<Rightarrow> cairo_close_path cr)"

subsection \<open>Clamping and snapping\<close>

text \<open>The two bounds, \<^verbatim>\<open>double(-(1 << 22))\<close> and \<^verbatim>\<open>double(1 << 22)\<close>.\<close>

definition coord_min :: real where
  "coord_min = - (2 ^ 22)"

definition coord_max :: real where
  "coord_max = 2 ^ 22"

text \<open>\<^verbatim>\<open>std::clamp(v, lo, hi)\<close>: two comparisons, so NaN stays NaN.\<close>

definition std_clamp :: "double \<Rightarrow> double \<Rightarrow> double \<Rightarrow> double" where
  "std_clamp v lo hi = (if dless v lo then lo else if dless hi v then hi else v)"

text \<open>
  A snapping function applied to a double: each of them leaves an infinity and NaN as
  they are.
\<close>

fun dmap :: "(real \<Rightarrow> real) \<Rightarrow> double \<Rightarrow> double" where
  "dmap f (Fin r) = Fin (f r)"
| "dmap f PInf = PInf"
| "dmap f MInf = MInf"
| "dmap f NaN = NaN"

text \<open>
  The free function \<^verbatim>\<open>get_additional_state(cairo_t*)\<close>, which checks, and the
  snap flag as either overload computes it.
\<close>

definition get_additional_state_cr :: "cairo_t \<Rightarrow> error + AdditionalState" where
  "get_additional_state_cr cr =
     (case state_stack cr of
        None \<Rightarrow> Inl (runtime_error ''cairo_t* missing additional state'')
      | Some [] \<Rightarrow> Inl (runtime_error ''cairo_t* missing additional state'')
      | Some (s # rest) \<Rightarrow> Inr s)"

definition path_snap :: "cairo_t \<Rightarrow> error + bool" where
  "path_snap cr =
     and_then (has_vector_surface cr) (\<lambda>vector.
     if vector then Inr False
     else and_then (get_additional_state_cr cr) (\<lambda>state. Inr (snap state)))"

subsection \<open>The general overload\<close>

text \<open>
  The codes of a path, after the cast to \<^verbatim>\<open>PathCode\<close>. The enumeration is declared
  in a header that is not among the sources; a code that is none of its six values is
  \<open>OTHER_CODE\<close>, for which the \<^verbatim>\<open>switch\<close> has no case.
\<close>

datatype PathCode = STOP | MOVETO | LINETO | CURVE3 | CURVE4 | CLOSEPOLY | OTHER_CODE int

record py_path =
  vertices :: ndarray
  codes :: "PathCode list option"

text \<open>
  The body of the main loop at index \<open>i\<close>: the new context, and how many further
  vertices the code has consumed (the \<^verbatim>\<open>i += 1\<close> and \<^verbatim>\<open>i += 2\<close> of the curves).
  The reads of the vertices after \<open>i\<close> are unchecked.
\<close>

definition load_path_step ::
  "(real \<Rightarrow> real) \<Rightarrow> cairo_matrix_t \<Rightarrow> ndarray \<Rightarrow> PathCode list \<Rightarrow> nat \<Rightarrow> cairo_t
     \<Rightarrow> error + nat \<times> cairo_t" where
  "load_path_step snapper matrix vs cs i cr =
     and_then (vertex_at vs i) (\<lambda>v0.
     let p0 = cairo_matrix_transform_point matrix v0;
         is_finite = (std_isfinite (fst p0) \<and> std_isfinite (snd p0));
         x0 = std_clamp (fst p0) (Fin coord_min) (Fin coord_max);
         y0 = std_clamp (snd p0) (Fin coord_min) (Fin coord_max) in
     case cs ! i of
       STOP \<Rightarrow> Inr (0, cr)
     | MOVETO \<Rightarrow>
         if is_finite
         then Inr (0, cairo_move_to (dmap snapper x0) (dmap snapper y0) cr)
         else Inr (0, cairo_new_sub_path cr)
     | LINETO \<Rightarrow>
         if is_finite
         then Inr (0, cairo_line_to (dmap snapper x0) (dmap snapper y0) cr)
         else Inr (0, cairo_new_sub_path cr)
     | CURVE3 \<Rightarrow>
         and_then (vertex_at vs (i + 1)) (\<lambda>v1.
         let p1 = cairo_matrix_transform_point matrix v1;
             last_finite = (std_isfinite (fst p1) \<and> std_isfinite (snd p1)) in
         if last_finite
         then
           let x1 = std_clamp (fst p1) (Fin coord_min) (Fin coord_max);
               y1 = std_clamp (snd p1) (Fin coord_min) (Fin coord_max) in
           if is_finite \<and> cairo_has_current_point cr
           then
             let x_prev = fst (cairo_get_current_point cr);
                 y_prev = snd (cairo_get_current_point cr) in
             Inr (1, cairo_curve_to
                       (ddiv (dadd x_prev (dmul (Fin 2) x0)) (Fin 3))
                       (ddiv (dadd y_prev (dmul (Fin 2) y0)) (Fin 3))
                       (ddiv (dadd (dmul (Fin 2) x0) x1) (Fin 3))
                       (ddiv (dadd (dmul (Fin 2) y0) y1) (Fin 3))
                       (dmap snapper x1) (dmap snapper y1) cr)
           else Inr (1, cairo_move_to (dmap snapper x1) (dmap snapper y1) cr)
         else Inr (1, cairo_new_sub_path cr))
     | CURVE4 \<Rightarrow>
         and_then (vertex_at vs (i + 1)) (\<lambda>v1.
         and_then (vertex_at vs (i + 2)) (\<lambda>v2.
         let p1 = cairo_matrix_transform_point matrix v1;
             p2 = cairo_matrix_transform_point matrix v2;
             last_finite = (std_isfinite (fst p2) \<and> std_isfinite (snd p2)) in
         if last_finite
         then
           let x1 = std_clamp (fst p1) (Fin coord_min) (Fin coord_max);
               y1 = std_clamp (snd p1) (Fin coord_min) (Fin coord_max);
               x2 = std_clamp (fst p2) (Fin coord_min) (Fin coord_max);
               y2 = std_clamp (snd p2) (Fin coord_min) (Fin coord_max) in
           if is_finite \<and> std_isfinite x1 \<and> std_isfinite y1 \<and> cairo_has_current_point cr
           then Inr (2, cairo_curve_to x0 y0 x1 y1 (dmap snapper x2) (dmap snapper y2) cr)
           else Inr (2, cairo_move_to (dmap snapper x2) (dmap snapper y2) cr)
         else Inr (2, cairo_new_sub_path cr)))
     | CLOSEPOLY \<Rightarrow> Inr (0, cairo_close_path cr)
     | OTHER_CODE c \<Rightarrow> Inr (0, cr))"

function load_path_loop ::
  "(real \<Rightarrow> real) \<Rightarrow> cairo_matrix_t \<Rightarrow> ndarray \<Rightarrow> PathCode list \<Rightarrow> nat \<Rightarrow> nat \<Rightarrow> cairo_t
     \<Rightarrow> error + cairo_t" where
  "load_path_loop snapper matrix vs cs n i cr =
     (if i < n
      then (case load_path_step snapper matrix vs cs i cr of
              Inl e \<Rightarrow> Inl e
            | Inr r \<Rightarrow> load_path_loop snapper matrix vs cs n (i + fst r + 1) (snd r))
      else Inr cr)"
  by pat_completeness auto
termination
  by (relation "measure (\<lambda>(snapper, matrix, vs, cs, n, i, cr). n - i)") auto

declare load_path_loop.simps [simp del]

text \<open>
  The general overload, for a path with codes: what follows the test
  \<^verbatim>\<open>if (!codes_keepref)\<close>.
\<close>

definition load_path_exact_codes ::
  "cairo_t \<Rightarrow> ndarray \<Rightarrow> PathCode list \<Rightarrow> cairo_matrix_t \<Rightarrow> error + cairo_t" where
  "load_path_exact_codes cr vs cs matrix =
     (let n = shape0 vs in
      if length cs \<noteq> n
      then Inl (invalid_argument ''Lengths of vertices and codes do not match'')
      else
        and_then (path_snap cr) (\<lambda>snp.
        let lw = gs_line_width (gstate cr);
            snapper = snapper_general snp lw in
        load_path_loop snapper matrix vs cs n 0 cr))"

subsection \<open>The codeless overload\<close>

definition LEFT :: int where
  "LEFT = push_bit 0 1"

definition RIGHT :: int where
  "RIGHT = push_bit 1 1"

definition BOTTOM :: int where
  "BOTTOM = push_bit 2 1"

definition TOP :: int where
  "TOP = push_bit 3 1"

definition outcode :: "real \<Rightarrow> real \<Rightarrow> int" where
  "outcode x y =
     (let code = 0;
          code = (if x < coord_min then code OR LEFT
                  else if x > coord_max then code OR RIGHT
                  else code);
          code = (if y < coord_min then code OR BOTTOM
                  else if y > coord_max then code OR TOP
                  else code)
      in code)"

text \<open>
  The point \<open>(xc, yc)\<close> where the segment meets the line of the box that \<open>code\<close>
  names first. The loop only reaches a division with a divisor that is not zero: the
  end point beyond the line and the other one, which is not beyond it, differ in that
  coordinate. The arithmetic is exact here, where the code rounds every operation.
\<close>

definition clip_point :: "int \<Rightarrow> real \<Rightarrow> real \<Rightarrow> real \<Rightarrow> real \<Rightarrow> real \<times> real" where
  "clip_point code x_prev y_prev x y =
     (if code AND TOP \<noteq> 0
      then (x_prev + (x - x_prev) * (coord_max - y_prev) / (y - y_prev), coord_max)
      else if code AND BOTTOM \<noteq> 0
      then (x_prev + (x - x_prev) * (coord_min - y_prev) / (y - y_prev), coord_min)
      else if code AND RIGHT \<noteq> 0
      then (coord_max, y_prev + (y - y_prev) * (coord_max - x_prev) / (x - x_prev))
      else if code AND LEFT \<noteq> 0
      then (coord_min, y_prev + (y - y_prev) * (coord_min - x_prev) / (x - x_prev))
      else (0, 0))"

text \<open>What the loop of Cohen and Sutherland leaves in its variables.\<close>

record clipped =
  accept :: bool
  update_prev :: bool
  clipped_prev :: "real \<times> real"
  clipped_point :: "real \<times> real"

text \<open>
  The loop \<^verbatim>\<open>while (true)\<close>, with the variables it changes as arguments. It has no
  bound of its own, so it is a partial function: \<open>None\<close> is a loop that does not end.
\<close>

partial_function (option) cohen_sutherland ::
  "real \<Rightarrow> real \<Rightarrow> real \<Rightarrow> real \<Rightarrow> int \<Rightarrow> int \<Rightarrow> bool \<Rightarrow> clipped option" where
  "cohen_sutherland x_prev y_prev x y code0 code1 upd =
     (if code0 OR code1 = 0
      then Some \<lparr>accept = True, update_prev = upd,
                 clipped_prev = (x_prev, y_prev), clipped_point = (x, y)\<rparr>
      else if code0 AND code1 \<noteq> 0
      then Some \<lparr>accept = False, update_prev = upd,
                 clipped_prev = (x_prev, y_prev), clipped_point = (x, y)\<rparr>
      else
        let code = (if code0 \<noteq> 0 then code0 else code1);
            xc = fst (clip_point code x_prev y_prev x y);
            yc = snd (clip_point code x_prev y_prev x y)
        in if code = code0
           then cohen_sutherland xc yc x y (outcode xc yc) code1 True
           else cohen_sutherland x_prev y_prev xc yc code0 (outcode xc yc) upd)"

text \<open>
  The assignment \<^verbatim>\<open>path_data.back().point = ...\<close>: the last element of the vector
  keeps its header and gets a new point.
\<close>

fun set_point :: "cairo_path_data_t \<Rightarrow> double \<Rightarrow> double \<Rightarrow> cairo_path_data_t" where
  "set_point (PATH_MOVE_TO a b) x y = PATH_MOVE_TO x y"
| "set_point (PATH_LINE_TO a b) x y = PATH_LINE_TO x y"
| "set_point (PATH_CURVE_TO a b c d e f) x y = PATH_CURVE_TO a b c d x y"
| "set_point PATH_CLOSE_PATH x y = PATH_CLOSE_PATH"

text \<open>
  What the loop body records after the clipping of the segment from the previous point:
  a move to the clipped previous point if the segment is accepted and that point has
  moved, the snapping of a horizontal or vertical segment, and the line (or, for a
  rejected segment, the move) to the point.
\<close>

definition record_segment ::
  "bool \<Rightarrow> (real \<Rightarrow> real) \<Rightarrow> clipped \<Rightarrow> cairo_path_data_t list
     \<Rightarrow> error + cairo_path_data_t list" where
  "record_segment snp snapper c path_data =
     (let x_prev = fst (clipped_prev c);
          y_prev = snd (clipped_prev c);
          x = fst (clipped_point c);
          y = snd (clipped_point c);
          header = (if accept c then PATH_LINE_TO else PATH_MOVE_TO);
          path_data1 = (if accept c \<and> update_prev c
                        then path_data @ [PATH_MOVE_TO (Fin x_prev) (Fin y_prev)]
                        else path_data) in
      if snp \<and> (x = x_prev \<or> y = y_prev)
      then (if path_data1 = [] then Inl undefined_behaviour
            else Inr (butlast path_data1
                      @ [set_point (last path_data1)
                           (Fin (snapper x_prev)) (Fin (snapper y_prev))]
                      @ [header (Fin (snapper x)) (Fin (snapper y))]))
      else Inr (path_data1 @ [header (Fin x) (Fin y)]))"

text \<open>The segment from the previous point: clipped, then recorded.\<close>

definition clip_segment ::
  "bool \<Rightarrow> (real \<Rightarrow> real) \<Rightarrow> real \<times> real \<Rightarrow> real \<times> real \<Rightarrow> cairo_path_data_t list
     \<Rightarrow> (error + cairo_path_data_t list) option" where
  "clip_segment snp snapper prev p path_data =
     (case cohen_sutherland (fst prev) (snd prev) (fst p) (snd p)
             (outcode (fst prev) (snd prev)) (outcode (fst p) (snd p)) False of
        None \<Rightarrow> None
      | Some c \<Rightarrow> Some (record_segment snp snapper c path_data))"

text \<open>The main loop, from \<open>i\<close> to \<open>stop\<close>, with the previous point and the vector.\<close>

function codeless_loop ::
  "bool \<Rightarrow> (real \<Rightarrow> real) \<Rightarrow> cairo_matrix_t \<Rightarrow> ndarray \<Rightarrow> int \<Rightarrow> int
     \<Rightarrow> (real \<times> real) option \<Rightarrow> cairo_path_data_t list
     \<Rightarrow> (error + cairo_path_data_t list) option" where
  "codeless_loop snp snapper matrix vs stop i prev path_data =
     (if i < stop
      then (case vertex_at vs (nat i) of
              Inl e \<Rightarrow> Some (Inl e)
            | Inr v \<Rightarrow>
                (case finite_point (cairo_matrix_transform_point matrix v) of
                   None \<Rightarrow> codeless_loop snp snapper matrix vs stop (i + 1) None path_data
                 | Some p \<Rightarrow>
                     (case prev of
                        None \<Rightarrow>
                          codeless_loop snp snapper matrix vs stop (i + 1) (Some p)
                            (path_data @ [PATH_MOVE_TO (Fin (fst p)) (Fin (snd p))])
                      | Some q \<Rightarrow>
                          (case clip_segment snp snapper q p path_data of
                             None \<Rightarrow> None
                           | Some (Inl e) \<Rightarrow> Some (Inl e)
                           | Some (Inr path_data') \<Rightarrow>
                               codeless_loop snp snapper matrix vs stop (i + 1) (Some p)
                                 path_data'))))
      else Some (Inr path_data))"
  by pat_completeness auto
termination
  by (relation "measure (\<lambda>(snp, snapper, matrix, vs, stop, i, prev, path_data). nat (stop - i))")
    auto

declare codeless_loop.simps [simp del]

definition load_path_exact_codeless ::
  "cairo_t \<Rightarrow> ndarray \<Rightarrow> int \<Rightarrow> int \<Rightarrow> cairo_matrix_t \<Rightarrow> (error + cairo_t) option" where
  "load_path_exact_codeless cr0 vs start stop matrix =
     (let cr = cairo_new_path cr0;
          n = int (shape0 vs) in
      if \<not> (0 \<le> start \<and> start \<le> stop \<and> stop \<le> n)
      then Some (Inl (invalid_argument ''Invalid bounds for sub-path''))
      else
        (case path_snap cr of
           Inl e \<Rightarrow> Some (Inl e)
         | Inr snp \<Rightarrow>
             let lw = gs_line_width (gstate cr);
                 snapper = snapper_codeless lw in
             (case codeless_loop snp snapper matrix vs stop start None [] of
                None \<Rightarrow> None
              | Some (Inl e) \<Rightarrow> Some (Inl e)
              | Some (Inr path_data) \<Rightarrow> Some (Inr (cairo_append_path path_data cr)))))"

text \<open>The general overload, which hands a path without codes to the codeless one.\<close>

definition load_path_exact ::
  "cairo_t \<Rightarrow> py_path \<Rightarrow> cairo_matrix_t \<Rightarrow> (error + cairo_t) option" where
  "load_path_exact cr0 p matrix =
     (let cr = cairo_new_path cr0;
          n = shape0 (vertices p) in
      if shape1 (vertices p) \<noteq> 2
      then Some (Inl (invalid_argument ''vertices must have shape (n, 2)''))
      else
        (case codes p of
           None \<Rightarrow> load_path_exact_codeless cr (vertices p) 0 (int n) matrix
         | Some cs \<Rightarrow> Some (load_path_exact_codes cr (vertices p) cs matrix)))"

section \<open>Markers\<close>

text \<open>
  The functions of cairo that \<^verbatim>\<open>fill_and_stroke_exact\<close> calls besides those above.
  The pixels a fill or a stroke puts on the surface are not modelled:
  \<^verbatim>\<open>cairo_fill_preserve\<close> and \<^verbatim>\<open>cairo_stroke_preserve\<close> leave the context as it
  is, and \<^verbatim>\<open>cairo_stroke\<close> clears the path. Line caps, joins, dashes and groups are
  not modelled either.
\<close>

definition cairo_set_line_width :: "real \<Rightarrow> cairo_t \<Rightarrow> cairo_t" where
  "cairo_set_line_width w cr = cr\<lparr>gstate := (gstate cr)\<lparr>gs_line_width := w\<rparr>\<rparr>"

definition cairo_stroke :: "cairo_t \<Rightarrow> cairo_t" where
  "cairo_stroke cr = cairo_new_path cr"

text \<open>
  A call that may throw or, as the loading of a path without codes, may not return,
  followed by the rest of the function.
\<close>

definition and_then_opt ::
  "(error + 'a) option \<Rightarrow> ('a \<Rightarrow> (error + 'b) option) \<Rightarrow> (error + 'b) option" where
  "and_then_opt r f =
     (case r of None \<Rightarrow> None | Some (Inl e) \<Rightarrow> Some (Inl e) | Some (Inr x) \<Rightarrow> f x)"

text \<open>
  \<^verbatim>\<open>fill_and_stroke_exact\<close>. \<open>unit_circle\<close> is the test
  \<^verbatim>\<open>path.is(detail::UNIT_CIRCLE)\<close>.
\<close>

definition fill_and_stroke_exact ::
  "cairo_t \<Rightarrow> bool \<Rightarrow> py_path \<Rightarrow> cairo_matrix_t \<Rightarrow> rgba_t option \<Rightarrow> rgba_t option
     \<Rightarrow> (error + cairo_t) option" where
  "fill_and_stroke_exact cr0 unit_circle p matrix fill stroke =
     (let cr = cairo_save cr0 in
      and_then_opt
        (case fill of
           None \<Rightarrow> Some (Inr (cr, False))
         | Some c \<Rightarrow>
             let cr = cairo_set_source_rgba c cr in
             if unit_circle
             then
               let cr = cairo_save cr;
                   cr = cairo_new_path cr;
                   cr = cairo_move_to (m_x0 matrix) (m_y0 matrix) cr;
                   cr = cairo_close_path cr;
                   cr = cairo_set_line_width 2 cr;
                   cr = cairo_stroke cr;
                   cr = cairo_restore cr
               in Some (Inr (cr, False))
             else
               and_then_opt (load_path_exact cr p matrix) (\<lambda>cr. Some (Inr (cr, True))))
        (\<lambda>r.
      and_then_opt
        (case stroke of
           None \<Rightarrow> Some (Inr (fst r))
         | Some c \<Rightarrow>
             let cr = cairo_set_source_rgba c (fst r) in
             if \<not> snd r then load_path_exact cr p matrix else Some (Inr cr))
        (\<lambda>cr. Some (Inr (cairo_restore cr)))))"

text \<open>
  What the lambda \<^verbatim>\<open>draw_one_marker\<close> captures: the marker path, whether it is the
  unit circle, the marker matrix and the two colours. The edge colour is always there.
\<close>

record marker =
  mk_unit_circle :: bool
  mk_path :: py_path
  mk_matrix :: cairo_matrix_t
  mk_fc_raw :: "rgba_t option"
  mk_ec_raw :: rgba_t

definition draw_one_marker :: "marker \<Rightarrow> cairo_t \<Rightarrow> double \<Rightarrow> double \<Rightarrow> (error + cairo_t) option" where
  "draw_one_marker mk cr x y =
     fill_and_stroke_exact cr (mk_unit_circle mk) (mk_path mk)
       \<lparr>m_xx = m_xx (mk_matrix mk), m_yx = m_yx (mk_matrix mk),
        m_xy = m_xy (mk_matrix mk), m_yy = m_yy (mk_matrix mk),
        m_x0 = dadd (m_x0 (mk_matrix mk)) x, m_y0 = dadd (m_y0 (mk_matrix mk)) y\<rparr>
       (mk_fc_raw mk) (Some (mk_ec_raw mk))"

text \<open>
  What \<^verbatim>\<open>draw_markers\<close> draws. Either the stamps: the grid size, the offsets at
  which \<^verbatim>\<open>draw_one_marker\<close> renders the patches (in the order of the array of
  patterns), and for every marker the index of the pattern painted and the integer
  position it is painted at. Or the markers drawn one by one: the positions given to
  \<^verbatim>\<open>draw_one_marker\<close>.
\<close>

datatype marker_drawing =
  Stamped int "(real \<times> real) list" "(int \<times> real \<times> real) list"
| Direct "(real \<times> real) list"

text \<open>
  The arguments of \<^verbatim>\<open>draw_markers\<close>. The face colour is given as
  \<^verbatim>\<open>to_rgba\<close> has converted it, the simplification threshold is the rc parameter,
  and the extents are what \<^verbatim>\<open>cairo_stroke_extents\<close> and
  \<^verbatim>\<open>cairo_fill_extents\<close> return for the marker path.
\<close>

record draw_markers_args =
  dm_gc_is_this :: bool
  dm_marker_is_unit_circle :: bool
  dm_marker_path :: py_path
  dm_marker_transform :: py_transform
  dm_vertices :: ndarray
  dm_transform :: py_transform
  dm_fc_raw :: "rgba_t option"
  dm_simplify_threshold :: double
  dm_stroke_extents :: "real \<times> real \<times> real \<times> real"
  dm_fill_extents :: "real \<times> real \<times> real \<times> real"

text \<open>
  The two nested loops that fill the array of patterns: the patch of the pair
  \<open>(i, j)\<close> is stored at \<open>i * n_subpix + j\<close>, so the list is in the order of
  \<^const>\<open>List.product\<close>.
\<close>

definition stamp_offsets :: "int \<Rightarrow> real \<Rightarrow> real \<Rightarrow> (real \<times> real) list" where
  "stamp_offsets n_subpix x0 y0 =
     map (\<lambda>(i, j). (- x0 + real i / real_of_int n_subpix,
                     - y0 + real j / real_of_int n_subpix))
         (List.product [0..<nat n_subpix] [0..<nat n_subpix])"

text \<open>The patches are drawn one after the other on the context of the raster surface.\<close>

primrec stamp_patches ::
  "marker \<Rightarrow> (real \<times> real) list \<Rightarrow> cairo_t \<Rightarrow> (error + cairo_t) option" where
  "stamp_patches mk [] raster_cr = Some (Inr raster_cr)"
| "stamp_patches mk (offset # rest) raster_cr =
     and_then_opt (draw_one_marker mk raster_cr (Fin (fst offset)) (Fin (snd offset)))
       (stamp_patches mk rest)"

text \<open>The loop that paints one stamp for every vertex with a finite target.\<close>

primrec paint_stamps ::
  "ndarray \<Rightarrow> cairo_matrix_t \<Rightarrow> real \<Rightarrow> real \<Rightarrow> int \<Rightarrow> nat list
     \<Rightarrow> error + (int \<times> real \<times> real) list" where
  "paint_stamps vs matrix x0 y0 n_subpix [] = Inr []"
| "paint_stamps vs matrix x0 y0 n_subpix (i # rest) =
     (case vertex_at vs i of
        Inl e \<Rightarrow> Inl e
      | Inr p \<Rightarrow>
          (case cairo_matrix_transform_point matrix p of (x, y) \<Rightarrow>
             (case finite_point (dadd x (Fin x0), dadd y (Fin y0)) of
                None \<Rightarrow> paint_stamps vs matrix x0 y0 n_subpix rest
              | Some (target_x, target_y) \<Rightarrow>
                  let i_target_x = std_floor target_x;
                      i_target_y = std_floor target_y;
                      f_target_x = target_x - i_target_x;
                      f_target_y = target_y - i_target_y;
                      idx = int_of_double (Fin (real_of_int n_subpix * f_target_x)) * n_subpix
                            + int_of_double (Fin (real_of_int n_subpix * f_target_y))
                  in if 0 \<le> idx \<and> idx < n_subpix * n_subpix
                     then (case paint_stamps vs matrix x0 y0 n_subpix rest of
                             Inl e \<Rightarrow> Inl e
                           | Inr ps \<Rightarrow> Inr ((idx, i_target_x, i_target_y) # ps))
                     else Inl undefined_behaviour)))"

text \<open>
  The loop that draws every marker by itself. A vertex that is not finite leaves the
  loop body by \<^verbatim>\<open>continue\<close>, after the save and before the restore.
\<close>

primrec draw_direct ::
  "marker \<Rightarrow> ndarray \<Rightarrow> cairo_matrix_t \<Rightarrow> nat list \<Rightarrow> cairo_t
     \<Rightarrow> (error + cairo_t \<times> (real \<times> real) list) option" where
  "draw_direct mk vs matrix [] cr = Some (Inr (cr, []))"
| "draw_direct mk vs matrix (i # rest) cr =
     (case vertex_at vs i of
        Inl e \<Rightarrow> Some (Inl e)
      | Inr p \<Rightarrow>
          (case finite_point (cairo_matrix_transform_point matrix p) of
             None \<Rightarrow> draw_direct mk vs matrix rest (cairo_save cr)
           | Some q \<Rightarrow>
               and_then_opt (draw_one_marker mk (cairo_save cr) (Fin (fst q)) (Fin (snd q)))
                 (\<lambda>cr1.
               and_then_opt (draw_direct mk vs matrix rest (cairo_restore cr1))
                 (\<lambda>r. Some (Inr (fst r, q # snd r))))))"

text \<open>
  The size of the grid of stamps and whether the array of patterns is allocated, from
  the simplification threshold and the number of vs: \<open>n_subpix\<close> stays 0
  below the limit of 1/16, and the array is allocated when the grid has fewer stamps
  than there are vs. The quotient \<^verbatim>\<open>1 / simplify_threshold\<close> is a double: it
  is rounded before \<^verbatim>\<open>std::ceil\<close> is applied.
\<close>

definition marker_n_subpix :: "double \<Rightarrow> int" where
  "marker_n_subpix simplify_threshold =
     (if dge simplify_threshold (Fin (1 / 16))
      then int_of_double (std_ceil (dmap round_to_double (ddiv (Fin 1) simplify_threshold)))
      else 0)"

definition marker_patterns :: "double \<Rightarrow> nat \<Rightarrow> bool" where
  "marker_patterns simplify_threshold n_vertices =
     (dge simplify_threshold (Fin (1 / 16))
      \<and> marker_n_subpix simplify_threshold * marker_n_subpix simplify_threshold
          < int n_vertices)"

text \<open>
  The context of the raster surface the patches are drawn on:
  \<^verbatim>\<open>cairo_create\<close> on a new image surface, then
  \<^verbatim>\<open>copy_for_marker_stamping\<close>, which copies the antialiasing, the line width and
  the source colour. Neither stores a stack of additional states in the new context.
\<close>

definition copy_for_marker_stamping :: "cairo_t \<Rightarrow> cairo_t \<Rightarrow> cairo_t" where
  "copy_for_marker_stamping orig dest =
     cairo_set_source_rgba (gs_source (gstate orig))
       (cairo_set_line_width (gs_line_width (gstate orig))
         (cairo_set_antialias (gs_antialias (gstate orig)) dest))"

text \<open>
  \<^verbatim>\<open>draw_markers\<close>. The default second argument of \<^verbatim>\<open>matrix_from_transform\<close>
  is taken to be 0. What the code does with the extents of the fill is kept as it is
  written.
\<close>

definition draw_markers ::
  "GraphicsContextRenderer \<Rightarrow> draw_markers_args
     \<Rightarrow> (error + GraphicsContextRenderer \<times> marker_drawing) option" where
  "draw_markers gcr0 args =
     (if \<not> dm_gc_is_this args
      then Some (Inl (invalid_argument ''Non-matching GraphicsContext''))
      else
      and_then_opt (Some (AdditionalContext gcr0)) (\<lambda>gcr1.
      and_then_opt (Some (get_additional_state gcr1)) (\<lambda>state.
      let old_snap = snap state in
      and_then_opt (Some (update_additional_state (\<lambda>s. s\<lparr>snap := False\<rparr>) gcr1)) (\<lambda>gcr2.
      let vs = dm_vertices args;
          n_vertices = shape0 vs in
      and_then_opt (Some (matrix_from_transform (dm_marker_transform args) (Fin 0)))
        (\<lambda>marker_matrix.
      and_then_opt (Some (matrix_from_transform (dm_transform args)
                  (Fin (real_of_int (gcr_height gcr2))))) (\<lambda>matrix.
      and_then_opt (Some (get_rgba gcr2)) (\<lambda>ec_raw.
      let mk = \<lparr>mk_unit_circle = dm_marker_is_unit_circle args,
                mk_path = dm_marker_path args,
                mk_matrix = marker_matrix,
                mk_fc_raw = dm_fc_raw args,
                mk_ec_raw = ec_raw\<rparr> in
      and_then_opt (Some (has_vector_surface (gcr_cr gcr2))) (\<lambda>vector.
      let simplify_threshold = (if vector then Fin 0 else dm_simplify_threshold args);
          n_subpix = marker_n_subpix simplify_threshold;
          patterns = marker_patterns simplify_threshold n_vertices in
      and_then_opt
        (if patterns then
           and_then_opt (load_path_exact (gcr_cr gcr2) (dm_marker_path args) marker_matrix)
             (\<lambda>cr.
           let se = dm_stroke_extents args;
               fe = dm_fill_extents args;
               has_fc = (dm_fc_raw args \<noteq> None);
               x0 = (if has_fc then min (fst se) (fst fe) else fst se);
               y0 = (if has_fc then max (fst (snd se)) (fst (snd fe)) else fst (snd se));
               x1 = (if has_fc then min (fst (snd (snd se))) (fst (snd (snd fe)))
                     else fst (snd (snd se)));
               y1 = (if has_fc then max (snd (snd (snd se))) (snd (snd (snd fe)))
                     else snd (snd (snd se)));
               raster_cr = copy_for_marker_stamping cr
                             (cr_from_image_args \<lceil>x1 - x0 + 1\<rceil> \<lceil>y1 - y0 + 1\<rceil>) in
           and_then_opt (stamp_patches mk (stamp_offsets n_subpix x0 y0) raster_cr)
             (\<lambda>raster_cr'.
           and_then_opt (Some (paint_stamps vs matrix x0 y0 n_subpix [0..<n_vertices]))
             (\<lambda>ps.
           Some (Inr (gcr2\<lparr>gcr_cr := cr\<rparr>,
                      Stamped n_subpix (stamp_offsets n_subpix x0 y0) ps)))))
         else
           and_then_opt (draw_direct mk vs matrix [0..<n_vertices] (gcr_cr gcr2))
             (\<lambda>r. Some (Inr (gcr2\<lparr>gcr_cr := fst r\<rparr>, Direct (snd r)))))
        (\<lambda>r.
      and_then_opt (Some (update_additional_state (\<lambda>s. s\<lparr>snap := old_snap\<rparr>) (fst r)))
        (\<lambda>gcr3.
      Some (Inr (AdditionalContext_exit gcr3, snd r))))))))))))"

section \<open>Coordinates of a loaded path\<close>

text \<open>
  The coordinates that a path element carries, and the paths all of whose coordinates are
  finite and lie in a given interval. \<open>path_inv\<close> extends this to the current point
  and the last move point of a context, from which \<^verbatim>\<open>CURVE3\<close> and
  \<^verbatim>\<open>cairo_close_path\<close> compute new coordinates.
\<close>

fun coord_within :: "real \<Rightarrow> real \<Rightarrow> double \<Rightarrow> bool" where
  "coord_within lo hi (Fin r) = (lo \<le> r \<and> r \<le> hi)"
| "coord_within lo hi PInf = False"
| "coord_within lo hi MInf = False"
| "coord_within lo hi NaN = False"

fun path_coords :: "cairo_path_data_t \<Rightarrow> double list" where
  "path_coords (PATH_MOVE_TO x y) = [x, y]"
| "path_coords (PATH_LINE_TO x y) = [x, y]"
| "path_coords (PATH_CURVE_TO x1 y1 x2 y2 x3 y3) = [x1, y1, x2, y2, x3, y3]"
| "path_coords PATH_CLOSE_PATH = []"

definition path_within :: "real \<Rightarrow> real \<Rightarrow> cairo_path_data_t list \<Rightarrow> bool" where
  "path_within lo hi ps = list_all (\<lambda>d. list_all (coord_within lo hi) (path_coords d)) ps"

definition path_inv :: "real \<Rightarrow> real \<Rightarrow> cairo_t \<Rightarrow> bool" where
  "path_inv lo hi cr =
     (path_within lo hi (path cr)
      \<and> (case current_point cr of
            None \<Rightarrow> True
          | Some p \<Rightarrow> coord_within lo hi (fst p) \<and> coord_within lo hi (snd p)
              \<and> coord_within lo hi (fst (last_move_point cr))
              \<and> coord_within lo hi (snd (last_move_point cr))))"

text \<open>
  The clamping in the words of the specification: a coordinate below \<open>-2^22\<close> is
  replaced by \<open>-2^22\<close> and one above \<open>2^22\<close> by \<open>2^22\<close>.
\<close>

definition clamp_coord :: "real \<Rightarrow> real" where
  "clamp_coord r = (if r < coord_min then coord_min else if coord_max < r then coord_max else r)"

section \<open>Properties\<close>

lemma std_lround_of_int: "std_lround (of_int n) = n"
  unfolding std_lround_def by (auto; linarith)

lemma snap_half_exact:
  "- (2 ^ 52) \<le> x \<Longrightarrow> x < 2 ^ 52 \<Longrightarrow> snap_half x = std_floor x + 1 / 2"
proof -
  assume a: "- (2 ^ 52) \<le> x" "x < 2 ^ 52"
  have "of_int (- (2 ^ 52)) \<le> x" using a(1) by simp
  then have lo: "- (2 ^ 52) \<le> \<lfloor>x\<rfloor>" by (simp only: le_floor_iff)
  have "x < of_int (2 ^ 52)" using a(2) by simp
  then have hi: "\<lfloor>x\<rfloor> < 2 ^ 52" by (simp only: floor_less_iff)
  from lo hi show ?thesis by (simp add: snap_half_def std_floor_def Let_def)
qed

lemma floor_plus_half: "\<lfloor>of_int n + (1 / 2 :: real)\<rfloor> = n"
  by linarith

lemma snap_half_idem:
  assumes "\<lfloor>x\<rfloor> \<noteq> - (2 ^ 52) - 1"
  shows "snap_half (snap_half x) = snap_half x"
proof -
  define n where "n = \<lfloor>x\<rfloor>"
  consider (exact) "- (2 ^ 52) \<le> n" "n < 2 ^ 52"
    | (even) "\<not> (- (2 ^ 52) \<le> n \<and> n < 2 ^ 52)" "even n"
    | (odd) "\<not> (- (2 ^ 52) \<le> n \<and> n < 2 ^ 52)" "odd n"
    by blast
  then show ?thesis
  proof cases
    case exact
    then have "snap_half x = of_int n + 1 / 2" by (simp add: snap_half_def n_def Let_def)
    with exact show ?thesis by (simp add: snap_half_def Let_def floor_plus_half)
  next
    case even
    then have "snap_half x = of_int n" by (simp add: snap_half_def n_def Let_def)
    with even show ?thesis by (simp add: snap_half_def Let_def)
  next
    case odd
    then have e: "snap_half x = of_int (n + 1)" by (simp add: snap_half_def n_def Let_def)
    have "n \<noteq> - (2 ^ 52) - 1" using assms by (simp add: n_def)
    with odd have "\<not> (- (2 ^ 52) \<le> n + 1 \<and> n + 1 < 2 ^ 52)" by linarith
    moreover have "even (n + 1)" using odd by simp
    ultimately have "snap_half (of_int (n + 1)) = of_int (n + 1)"
      unfolding snap_half_def Let_def floor_of_int by simp
    with e show ?thesis by simp
  qed
qed

lemma snap_round_idem: "snap_round (snap_round x) = snap_round x"
  by (simp add: snap_round_def std_round_def std_lround_of_int)

text \<open>
  C7, as the code has it. The snapper that rounds to integers is idempotent on every
  coordinate. The snapper \<open>floor(x) + .5\<close> is idempotent on every coordinate but the
  double \<open>- 2 ^ 52 - 1\<close>, the only double whose floor is \<open>- 2 ^ 52 - 1\<close>; so is the
  snapper either overload of \<open>load_path_exact\<close> selects, for every line width.
  Between \<open>- 2 ^ 52\<close> and \<open>2 ^ 52\<close> the sum is exact and the equation of the
  specification holds as it is written.
\<close>

theorem snap_idempotent:
  "(\<lfloor>x\<rfloor> \<noteq> - (2 ^ 52) - 1 \<longrightarrow>
      snap_half (snap_half x) = snap_half x
      \<and> snapper_general snp lw (snapper_general snp lw x) = snapper_general snp lw x
      \<and> snapper_codeless lw (snapper_codeless lw x) = snapper_codeless lw x)
   \<and> (- (2 ^ 52) \<le> x \<and> x < 2 ^ 52 \<longrightarrow>
      snap_half x = std_floor x + 1 / 2
      \<and> std_floor (std_floor x + 1 / 2) + 1 / 2 = std_floor x + 1 / 2)
   \<and> snap_round (snap_round x) = snap_round x
   \<and> std_round (std_round x) = std_round x"
proof -
  have "std_floor (std_floor x + 1 / 2) + 1 / 2 = std_floor x + 1 / 2"
    by (simp add: std_floor_def floor_plus_half)
  then show ?thesis
    using snap_half_idem [of x] snap_round_idem [of x] snap_half_exact [of x]
    by (simp add: snapper_general_def snapper_codeless_def snap_round_def)
qed

theorem snap_idempotent_witness:
  "snap_half (1 / 5) = 1 / 2 \<and> snap_half (snap_half (1 / 5)) = snap_half (1 / 5)
   \<and> snapper_general True 1 (snapper_general True 1 (1 / 5)) = snapper_general True 1 (1 / 5)
   \<and> snapper_codeless 1 (snapper_codeless 1 (1 / 5)) = snapper_codeless 1 (1 / 5)"
proof -
  have f: "\<lfloor>1 / 5 :: real\<rfloor> = 0" by simp
  have "snap_half (1 / 5) = 1 / 2" by (simp add: snap_half_def Let_def)
  then show ?thesis using snap_idempotent [of "1 / 5" True 1] by (simp add: f)
qed

text \<open>
  The claim as the specification states it fails at the double \<open>- 2 ^ 52 - 1\<close>: the
  sum \<open>- 2 ^ 52 - 1/2\<close> is rounded to \<open>- 2 ^ 52\<close>, and \<open>- 2 ^ 52\<close> is snapped to
  \<open>- 2 ^ 52 + 1/2\<close>.
\<close>

theorem snap_half_not_idempotent:
  "snap_half (- (2 ^ 52) - 1) = - (2 ^ 52)
   \<and> snap_half (snap_half (- (2 ^ 52) - 1)) = - (2 ^ 52) + 1 / 2
   \<and> snapper_codeless (1 / 2) (snapper_codeless (1 / 2) (- (2 ^ 52) - 1))
       \<noteq> snapper_codeless (1 / 2) (- (2 ^ 52) - 1)"
proof -
  have a: "snap_half (- 4503599627370497) = - 4503599627370496"
    by (simp add: snap_half_def Let_def)
  have b: "snap_half (- 4503599627370496) = - (9007199254740991 / 2)"
    by (simp add: snap_half_def Let_def)
  show ?thesis by (simp add: a b snapper_codeless_def)
qed

text \<open>
  C5, as the code has it. The additional context resolves the antialiasing of the
  current state: an enum value as it is, \<open>false\<close> to NONE, and \<open>true\<close> to BEST for a
  line width below the double \<^verbatim>\<open>1. / 3\<close> and to FAST from that double on; this is the
  mode the constructor leaves on the context. The double \<^verbatim>\<open>1. / 3\<close> is
  \<open>(2 ^ 54 - 1) / (3 * 2 ^ 54)\<close>, which is less than 1/3.
\<close>

theorem additional_context_antialias:
  "resolve_antialias (AA_enum a) lw = a
   \<and> resolve_antialias (AA_bool True) lw
       = (if lw < one_third then CAIRO_ANTIALIAS_BEST else CAIRO_ANTIALIAS_FAST)
   \<and> one_third = (2 ^ 54 - 1) / (3 * 2 ^ 54)
   \<and> resolve_antialias (AA_bool False) lw = CAIRO_ANTIALIAS_NONE
   \<and> (case AdditionalContext gcr of
         Inl e \<Rightarrow> get_additional_state gcr = Inl e
       | Inr gcr' \<Rightarrow>
           (case get_additional_state gcr of
              Inl e \<Rightarrow> False
            | Inr state \<Rightarrow>
                gs_antialias (gstate (gcr_cr gcr'))
                  = resolve_antialias (antialias state) (gs_line_width (gstate (gcr_cr gcr)))))"
proof -
  have "one_third = (2 ^ 54 - 1) / (3 * 2 ^ 54)" by (simp add: one_third_def)
  then show ?thesis
    by (auto simp: resolve_antialias_def AdditionalContext_def get_rgba_def Let_def
          cairo_set_antialias_def cairo_set_source_rgba_def cairo_clip_def cairo_save_def
        split: sum.splits option.splits prod.splits)
qed

text \<open>
  The claim as the specification states it fails at the line width that is the double
  \<^verbatim>\<open>1. / 3\<close>: it is strictly less than 1/3, and the mode is FAST.
\<close>

theorem antialias_fast_below_one_third:
  "one_third < 1 / 3
   \<and> resolve_antialias (AA_bool True) one_third = CAIRO_ANTIALIAS_FAST
   \<and> (case AdditionalContext
             (new_GraphicsContextRenderer
               ((cr_from_image_args 1 1)\<lparr>gstate :=
                  (gstate (cr_from_image_args 1 1))\<lparr>gs_line_width := one_third\<rparr>\<rparr>)
               1 1 72 (0, 0, 0, 1) 1) of
         Inl e \<Rightarrow> False
       | Inr gcr' \<Rightarrow> gs_antialias (gstate (gcr_cr gcr')) = CAIRO_ANTIALIAS_FAST)"
proof -
  have "one_third < 1 / 3" by (simp add: one_third_def)
  moreover have "resolve_antialias (AA_bool True) one_third = CAIRO_ANTIALIAS_FAST"
    by (simp add: resolve_antialias_def)
  ultimately show ?thesis
    by (simp add: AdditionalContext_def get_rgba_def get_additional_state_def Let_def
        new_GraphicsContextRenderer_def cr_from_image_args_def cairo_save_def
        cairo_set_source_rgba_def cairo_set_antialias_def)
qed

text \<open>
  C6. For a transform marked affine (or without the attribute, which counts as affine)
  whose array has shape (3, 3), the adapter returns the device matrix
  a = m00, b = -m10, c = m01, d = -m11, e = m02, f = H - m12; for a transform whose
  attribute is false it raises an invalid-argument error.
\<close>

theorem matrix_from_transform_affine:
  "(is_affine t \<noteq> Some False \<and> shape0 (as_array t) = 3 \<and> shape1 (as_array t) = 3 \<longrightarrow>
      matrix_from_transform t H = Inr \<lparr>
        m_xx = elem (as_array t) 0 0, m_yx = dneg (elem (as_array t) 1 0),
        m_xy = elem (as_array t) 0 1, m_yy = dneg (elem (as_array t) 1 1),
        m_x0 = elem (as_array t) 0 2, m_y0 = dsub H (elem (as_array t) 1 2)\<rparr>)
   \<and> (is_affine t = Some False \<longrightarrow>
      matrix_from_transform t H = Inl (invalid_argument ''Only affine transforms are handled''))"
  by (auto simp: matrix_from_transform_def Let_def split: option.splits)

theorem matrix_from_transform_affine_witness:
  "matrix_from_transform
     \<lparr>is_affine = Some True,
      as_array = \<lparr>shape0 = 3, shape1 = 3, elem = (\<lambda>i j. Fin (real (3 * i + j)))\<rparr>\<rparr>
     (Fin 100)
   = Inr \<lparr>m_xx = Fin 0, m_yx = Fin (- 3), m_xy = Fin 1, m_yy = Fin (- 4),
          m_x0 = Fin 2, m_y0 = Fin 95\<rparr>
   \<and> matrix_from_transform
     \<lparr>is_affine = Some False,
      as_array = \<lparr>shape0 = 3, shape1 = 3, elem = (\<lambda>i j. Fin (real (3 * i + j)))\<rparr>\<rparr>
     (Fin 100)
   = Inl (invalid_argument ''Only affine transforms are handled'')"
  using
    matrix_from_transform_affine [of
      "\<lparr>is_affine = Some True,
        as_array = \<lparr>shape0 = 3, shape1 = 3, elem = (\<lambda>i j. Fin (real (3 * i + j)))\<rparr>\<rparr>"
      "Fin 100"]
    matrix_from_transform_affine [of
      "\<lparr>is_affine = Some False,
        as_array = \<lparr>shape0 = 3, shape1 = 3, elem = (\<lambda>i j. Fin (real (3 * i + j)))\<rparr>\<rparr>"
      "Fin 100"]
  by (simp add: dsub_def)

subsection \<open>The state stack\<close>

lemma state_stack_new_gc:
  "state_stack (gcr_cr g) = Some (s # rest) \<Longrightarrow>
   \<exists>g'. new_gc g = Inr g' \<and> state_stack (gcr_cr g') = Some (s # s # rest)"
  by (simp add: new_gc_def cairo_save_def)

lemma state_stack_restore:
  "state_stack (gcr_cr g) = Some (s # rest) \<Longrightarrow>
   \<exists>g'. restore g = Inr g' \<and> state_stack (gcr_cr g') = Some rest"
  by (simp add: restore_def cairo_restore_def split: list.splits)

lemma run_ops_balanced:
  "state_stack (gcr_cr g) = Some (replicate d s @ s # rest) \<Longrightarrow> balanced d ops \<Longrightarrow>
   \<exists>g'. run_ops ops g = Inr g'
        \<and> state_stack (gcr_cr g') = Some (replicate (surplus d ops) s @ s # rest)"
proof (induction ops arbitrary: d g)
  case Nil
  then show ?case by simp
next
  case (Cons op ops)
  show ?case
  proof (cases op)
    case New_gc
    have "\<exists>tl. replicate d s @ s # rest = s # tl
            \<and> s # s # tl = replicate (Suc d) s @ s # rest"
      by (cases d) (simp_all add: replicate_append_same)
    then obtain tl where tl: "replicate d s @ s # rest = s # tl"
      "s # s # tl = replicate (Suc d) s @ s # rest" by blast
    from Cons.prems(1) tl(1) have "state_stack (gcr_cr g) = Some (s # tl)" by simp
    from state_stack_new_gc [OF this] obtain g1 where
      g1: "new_gc g = Inr g1" "state_stack (gcr_cr g1) = Some (s # s # tl)" by blast
    from g1(2) tl(2) have "state_stack (gcr_cr g1) = Some (replicate (Suc d) s @ s # rest)"
      by simp
    moreover from Cons.prems(2) New_gc have "balanced (Suc d) ops" by simp
    ultimately obtain g' where "run_ops ops g1 = Inr g'"
      "state_stack (gcr_cr g') = Some (replicate (surplus (Suc d) ops) s @ s # rest)"
      using Cons.IH by blast
    with g1(1) New_gc show ?thesis by simp
  next
    case Restore
    with Cons.prems(2) have d: "0 < d" and b: "balanced (d - 1) ops" by simp_all
    from d obtain k where k: "d = Suc k" by (cases d) simp_all
    from Cons.prems(1) k have "state_stack (gcr_cr g) = Some (s # replicate k s @ s # rest)"
      by simp
    from state_stack_restore [OF this] obtain g1 where
      g1: "restore g = Inr g1" "state_stack (gcr_cr g1) = Some (replicate k s @ s # rest)"
      by blast
    from b k have "balanced k ops" by simp
    with g1(2) obtain g' where "run_ops ops g1 = Inr g'"
      "state_stack (gcr_cr g') = Some (replicate (surplus k ops) s @ s # rest)"
      using Cons.IH by blast
    with g1(1) Restore k show ?thesis by simp
  qed
qed

text \<open>
  C2, as the code has it. \<open>restore\<close> pops the top state without looking at the depth:
  it succeeds on every non-empty stack, also when only the base state is left. For a
  sequence of pushes and pops on a new context in which no prefix pops more than it
  pushed, every operation succeeds, the stack is the base state under one copy of it
  for each unmatched push, and so its depth is at least 1.
\<close>

theorem state_stack_push_pop:
  "(state_stack (gcr_cr g) = Some (s # rest) \<longrightarrow>
      (\<exists>g'. restore g = Inr g' \<and> state_stack (gcr_cr g') = Some rest))
   \<and> (balanced 0 ops \<longrightarrow>
      (\<exists>base g'.
         state_stack (gcr_cr (new_GraphicsContextRenderer cr w h dpi hc hl)) = Some [base]
         \<and> run_ops ops (new_GraphicsContextRenderer cr w h dpi hc hl) = Inr g'
         \<and> state_stack (gcr_cr g') = Some (replicate (surplus 0 ops) base @ [base])
         \<and> depth g' = Suc (surplus 0 ops)))"
proof (intro conjI impI)
  assume "state_stack (gcr_cr g) = Some (s # rest)"
  then show "\<exists>g'. restore g = Inr g' \<and> state_stack (gcr_cr g') = Some rest"
    by (rule state_stack_restore)
next
  assume b: "balanced 0 ops"
  obtain base where
    base: "state_stack (gcr_cr (new_GraphicsContextRenderer cr w h dpi hc hl)) = Some [base]"
    by (simp add: new_GraphicsContextRenderer_def)
  then have "state_stack (gcr_cr (new_GraphicsContextRenderer cr w h dpi hc hl))
      = Some (replicate 0 base @ base # [])" by simp
  from run_ops_balanced [OF this b] obtain g' where
    g': "run_ops ops (new_GraphicsContextRenderer cr w h dpi hc hl) = Inr g'"
    "state_stack (gcr_cr g') = Some (replicate (surplus 0 ops) base @ [base])" by blast
  then have "depth g' = Suc (surplus 0 ops)" by (simp add: depth_def)
  with base g' show "\<exists>base g'.
         state_stack (gcr_cr (new_GraphicsContextRenderer cr w h dpi hc hl)) = Some [base]
         \<and> run_ops ops (new_GraphicsContextRenderer cr w h dpi hc hl) = Inr g'
         \<and> state_stack (gcr_cr g') = Some (replicate (surplus 0 ops) base @ [base])
         \<and> depth g' = Suc (surplus 0 ops)" by blast
qed

theorem state_stack_push_pop_witness:
  "balanced 0 [New_gc, New_gc, Restore]
   \<and> (\<exists>g'. run_ops [New_gc, New_gc, Restore]
              (new_GraphicsContextRenderer (cr_from_image_args 1 1) 1 1 72 (0, 0, 0, 1) 1)
            = Inr g'
          \<and> depth g' = 2)
   \<and> (\<exists>g'. restore
              (new_GraphicsContextRenderer (cr_from_image_args 1 1) 1 1 72 (0, 0, 0, 1) 1)
            = Inr g'
          \<and> state_stack (gcr_cr g') = Some [])"
  using state_stack_push_pop [of
      "new_GraphicsContextRenderer (cr_from_image_args 1 1) 1 1 72 (0, 0, 0, 1) 1"
      "\<lparr>alpha = None, antialias = AA_bool True, clip_rectangle = None, clip_path = None,
        hatch = None, hatch_color = (0, 0, 0, 1), hatch_linewidth = 1, sketch = None,
        snap = True\<rparr>"
      "[]" "[New_gc, New_gc, Restore]" "cr_from_image_args 1 1" 1 1 72 "(0, 0, 0, 1)" 1]
  by (auto simp: new_GraphicsContextRenderer_def)

text \<open>
  The claim as the specification states it fails on a new context: the first
  \<open>restore\<close> raises nothing and removes the base state.
\<close>

theorem restore_pops_base_state:
  "(case restore (new_GraphicsContextRenderer (cr_from_image_args 1 1) 1 1 72 (0, 0, 0, 1) 1) of
      Inl e \<Rightarrow> False
    | Inr g \<Rightarrow> depth g = 0)"
  by (simp add: restore_def new_GraphicsContextRenderer_def cr_from_image_args_def depth_def
      cairo_restore_def)

subsection \<open>The snap flag across the drawing calls\<close>

lemma and_then_InrE:
  assumes "and_then r f = Inr y"
  obtains x where "r = Inr x" and "f x = Inr y"
  using assms by (cases r) (simp_all add: and_then_def)

lemma state_stack_AdditionalContext:
  "AdditionalContext g = Inr g' \<Longrightarrow> state_stack (gcr_cr g') = state_stack (gcr_cr g)"
  by (auto simp: AdditionalContext_def Let_def cairo_save_def cairo_set_source_rgba_def
        cairo_set_antialias_def cairo_clip_def
      split: sum.splits option.splits prod.splits)

lemma state_stack_AdditionalContext_exit:
  "state_stack (gcr_cr (AdditionalContext_exit g)) = state_stack (gcr_cr g)"
  by (simp add: AdditionalContext_exit_def cairo_restore_def split: list.splits)

lemma state_stack_cairo_save: "state_stack (cairo_save cr) = state_stack cr"
  by (simp add: cairo_save_def)

lemma state_stack_cairo_restore: "state_stack (cairo_restore cr) = state_stack cr"
  by (simp add: cairo_restore_def split: list.splits)

text \<open>
  \<open>draw_path_collection\<close> leaves the whole state stack as it found it when it reaches
  its last line: with at least one path and one offset, outside the fallback.
\<close>

lemma draw_path_collection_state_stack:
  assumes "draw_path_collection base g args = Inr g'"
    and "pc_n_paths args \<noteq> 0" and "shape0 (pc_offsets args) \<noteq> 0"
    and "get_additional_state g = Inr s0"
    and "\<not> ((case hatch s0 of None \<Rightarrow> False | Some h \<Rightarrow> h \<noteq> [])
        \<or> pc_offset_position args = ''data'')"
  shows "state_stack (gcr_cr g') = state_stack (gcr_cr g)"
  using assms unfolding draw_path_collection_def Let_def
  by (auto elim!: and_then_InrE split: if_splits
      dest!: state_stack_AdditionalContext
      simp: state_stack_AdditionalContext_exit get_additional_state_def
        update_additional_state_def split: option.splits list.splits)

text \<open>
  C10 fails on the early return of \<open>draw_path_collection\<close>: with no path (or no
  offset) the call returns after it has set the flag to false and before the line that
  sets it back. Here the context is new, so its flag is true before the call, and the
  call returns normally with the flag false.
\<close>

theorem draw_path_collection_leaves_snap_off:
  "(case get_additional_state
           (new_GraphicsContextRenderer (cr_from_image_args 1 1) 1 1 72 (0, 0, 0, 1) 1) of
      Inl e \<Rightarrow> False
    | Inr s \<Rightarrow> snap s)
   \<and> (case draw_path_collection Inr
           (new_GraphicsContextRenderer (cr_from_image_args 1 1) 1 1 72 (0, 0, 0, 1) 1)
           \<lparr>pc_gc_is_this = True,
            pc_master_transform = \<lparr>is_affine = Some True,
              as_array = \<lparr>shape0 = 3, shape1 = 3,
                          elem = (\<lambda>i j. if i = j then Fin 1 else Fin 0)\<rparr>\<rparr>,
            pc_n_paths = 0,
            pc_transforms = [],
            pc_offsets = \<lparr>shape0 = 0, shape1 = 2, elem = (\<lambda>i j. Fin 0)\<rparr>,
            pc_offset_transform = \<lparr>is_affine = Some True,
              as_array = \<lparr>shape0 = 3, shape1 = 3,
                          elem = (\<lambda>i j. if i = j then Fin 1 else Fin 0)\<rparr>\<rparr>,
            pc_offset_position = ''screen''\<rparr> of
        Inl e \<Rightarrow> False
      | Inr g' \<Rightarrow>
          (case get_additional_state g' of
             Inl e \<Rightarrow> False
           | Inr s \<Rightarrow> \<not> snap s))"
  by (simp add: draw_path_collection_def and_then_def get_additional_state_def
      new_GraphicsContextRenderer_def cr_from_image_args_def AdditionalContext_def
      AdditionalContext_exit_def get_rgba_def update_additional_state_def Let_def
      cairo_save_def cairo_restore_def cairo_set_source_rgba_def cairo_set_antialias_def
      resolve_antialias_def)

subsection \<open>Region capture and restore\<close>







lemma row_offset_nonneg:
  fixes r y0 n :: int
  assumes "y0 \<le> r" "0 \<le> n"
  shows "0 \<le> (r - y0) * n"
  using assms by simp


















subsection \<open>Clamping in the overload for paths with codes\<close>

lemma path_inv_new_path: "path_inv lo hi (cairo_new_path cr)"
  by (simp add: path_inv_def cairo_new_path_def path_within_def)

lemma path_inv_new_sub_path: "path_inv lo hi cr \<Longrightarrow> path_inv lo hi (cairo_new_sub_path cr)"
  by (simp add: path_inv_def cairo_new_sub_path_def)

lemma path_inv_move_to:
  "path_inv lo hi cr \<Longrightarrow> coord_within lo hi x \<Longrightarrow> coord_within lo hi y \<Longrightarrow>
   path_inv lo hi (cairo_move_to x y cr)"
  by (simp add: path_inv_def cairo_move_to_def path_within_def)

lemma path_inv_line_to:
  "path_inv lo hi cr \<Longrightarrow> coord_within lo hi x \<Longrightarrow> coord_within lo hi y \<Longrightarrow>
   path_inv lo hi (cairo_line_to x y cr)"
  by (auto simp: path_inv_def cairo_line_to_def cairo_move_to_def path_within_def
      split: option.splits)

lemma path_inv_curve_to:
  "path_inv lo hi cr \<Longrightarrow> coord_within lo hi x1 \<Longrightarrow> coord_within lo hi y1 \<Longrightarrow>
   coord_within lo hi x2 \<Longrightarrow> coord_within lo hi y2 \<Longrightarrow>
   coord_within lo hi x3 \<Longrightarrow> coord_within lo hi y3 \<Longrightarrow>
   path_inv lo hi (cairo_curve_to x1 y1 x2 y2 x3 y3 cr)"
  by (auto simp: path_inv_def cairo_curve_to_def cairo_move_to_def path_within_def Let_def
      split: option.splits)

lemma path_inv_close_path: "path_inv lo hi cr \<Longrightarrow> path_inv lo hi (cairo_close_path cr)"
  by (auto simp: path_inv_def cairo_close_path_def path_within_def split: option.splits)

lemma path_inv_current_point:
  "path_inv lo hi cr \<Longrightarrow> cairo_has_current_point cr \<Longrightarrow>
   coord_within lo hi (fst (cairo_get_current_point cr))
   \<and> coord_within lo hi (snd (cairo_get_current_point cr))"
  by (auto simp: path_inv_def cairo_has_current_point_def cairo_get_current_point_def
      split: option.splits)

lemma std_clamp_finite:
  "std_isfinite v \<Longrightarrow> coord_within coord_min coord_max (std_clamp v (Fin coord_min) (Fin coord_max))"
  by (cases v) (simp_all add: std_clamp_def coord_min_def coord_max_def)

lemma std_clamp_isfinite:
  "std_isfinite (std_clamp v (Fin coord_min) (Fin coord_max)) \<Longrightarrow>
   coord_within coord_min coord_max (std_clamp v (Fin coord_min) (Fin coord_max))"
  by (cases v) (simp_all add: std_clamp_def coord_min_def coord_max_def)

lemma std_clamp_keeps_finite:
  "std_isfinite v \<Longrightarrow> std_isfinite (std_clamp v (Fin coord_min) (Fin coord_max))"
  by (cases v) (simp_all add: std_clamp_def)

lemma coord_within_mono:
  "coord_within lo hi c \<Longrightarrow> lo' \<le> lo \<Longrightarrow> hi \<le> hi' \<Longrightarrow> coord_within lo' hi' c"
  by (cases c) simp_all

lemma coord_within_dmap:
  assumes "coord_within lo hi c" and "\<And>r. lo \<le> r \<Longrightarrow> r \<le> hi \<Longrightarrow> lo' \<le> f r \<and> f r \<le> hi'"
  shows "coord_within lo' hi' (dmap f c)"
  using assms by (cases c) simp_all

lemma coord_within_quadratic1:
  assumes "coord_within lo hi' xp" "coord_within lo hi x0" "hi \<le> hi'"
  shows "coord_within lo hi' (ddiv (dadd xp (dmul (Fin 2) x0)) (Fin 3))"
  using assms by (cases xp; cases x0) simp_all

lemma coord_within_quadratic2:
  assumes "coord_within lo hi x0" "coord_within lo hi x1"
  shows "coord_within lo hi (ddiv (dadd (dmul (Fin 2) x0) x1) (Fin 3))"
  using assms by (cases x0; cases x1) simp_all


lemma load_path_step_inv:
  assumes inv: "path_inv coord_min hi cr" and hi: "coord_max \<le> hi"
    and sn: "\<And>r. coord_min \<le> r \<Longrightarrow> r \<le> coord_max \<Longrightarrow> coord_min \<le> snapper r \<and> snapper r \<le> hi"
    and step: "load_path_step snapper m vs cs i cr = Inr (k, cr')"
  shows "path_inv coord_min hi cr'"
proof -
  let ?c = "\<lambda>v. std_clamp v (Fin coord_min) (Fin coord_max)"
  have c1: "coord_within coord_min hi (dmap snapper (?c v))" if "std_isfinite v" for v
    by (rule coord_within_dmap [OF std_clamp_finite [OF that] sn])
  have c2: "coord_within coord_min hi (?c v)" if "std_isfinite v" for v
    by (rule coord_within_mono [OF std_clamp_finite [OF that] order_refl hi])
  have c3: "coord_within coord_min hi (?c v)" if "std_isfinite (?c v)" for v
    by (rule coord_within_mono [OF std_clamp_isfinite [OF that] order_refl hi])
  have q1: "coord_within coord_min hi
      (ddiv (dadd (fst (cairo_get_current_point cr)) (dmul (Fin 2) (?c v))) (Fin 3))"
    and q1': "coord_within coord_min hi
      (ddiv (dadd (snd (cairo_get_current_point cr)) (dmul (Fin 2) (?c v))) (Fin 3))"
    if "std_isfinite v" "cairo_has_current_point cr" for v
    using path_inv_current_point [OF inv that(2)] std_clamp_finite [OF that(1)] hi
    by (auto intro: coord_within_quadratic1)
  have q2: "coord_within coord_min hi (ddiv (dadd (dmul (Fin 2) (?c v)) (?c w)) (Fin 3))"
    if "std_isfinite v" "std_isfinite w" for v w
    by (rule coord_within_mono [OF coord_within_quadratic2
          [OF std_clamp_finite [OF that(1)] std_clamp_finite [OF that(2)]] order_refl hi])
  note intros = path_inv_move_to [OF inv] path_inv_line_to [OF inv] path_inv_curve_to [OF inv]
    path_inv_new_sub_path [OF inv] path_inv_close_path [OF inv]
  from step obtain v0 where v0: "vertex_at vs i = Inr v0"
    unfolding load_path_step_def by (auto elim: and_then_InrE)
  show ?thesis
  proof (cases "cs ! i")
    case STOP
    with step v0 inv show ?thesis by (simp add: load_path_step_def and_then_def)
  next
    case MOVETO
    with step v0 show ?thesis
      by (auto simp: load_path_step_def and_then_def Let_def split: if_splits
          intro!: intros c1)
  next
    case LINETO
    with step v0 show ?thesis
      by (auto simp: load_path_step_def and_then_def Let_def split: if_splits
          intro!: intros c1)
  next
    case CURVE3
    with step v0 show ?thesis
      by (auto simp: load_path_step_def Let_def and_then_def split: if_splits sum.splits
          intro!: intros c1 q1 q1' q2)
  next
    case CURVE4
    with step v0 show ?thesis
      by (auto simp: load_path_step_def Let_def and_then_def std_clamp_keeps_finite
          split: if_splits sum.splits intro!: intros c1 c3)
  next
    case CLOSEPOLY
    with step v0 show ?thesis
      by (auto simp: load_path_step_def and_then_def intro!: intros)
  next
    case (OTHER_CODE c)
    with step v0 inv show ?thesis by (simp add: load_path_step_def and_then_def)
  qed
qed

lemma load_path_loop_inv:
  assumes "path_inv coord_min hi cr" and "coord_max \<le> hi"
    and "\<And>r. coord_min \<le> r \<Longrightarrow> r \<le> coord_max \<Longrightarrow> coord_min \<le> snapper r \<and> snapper r \<le> hi"
    and "load_path_loop snapper m vs cs n i cr = Inr cr'"
  shows "path_inv coord_min hi cr'"
  using assms
proof (induction snapper m vs cs n i cr rule: load_path_loop.induct)
  case (1 snapper m vs cs n i cr)
  show ?case
  proof (cases "i < n")
    case False
    with "1.prems"(4) have "cr' = cr" by (simp add: load_path_loop.simps)
    with "1.prems"(1) show ?thesis by simp
  next
    case True
    with "1.prems"(4) obtain r where r: "load_path_step snapper m vs cs i cr = Inr r"
      and rest: "load_path_loop snapper m vs cs n (i + fst r + 1) (snd r) = Inr cr'"
      by (subst (asm) load_path_loop.simps) (auto split: sum.splits)
    from r have "load_path_step snapper m vs cs i cr = Inr (fst r, snd r)" by simp
    from load_path_step_inv [OF "1.prems"(1,2,3) this]
    have "path_inv coord_min hi (snd r)" .
    from "1.IH" [OF True r this "1.prems"(2,3) rest] show ?thesis .
  qed
qed


lemma snap_round_bounds:
  assumes "coord_min \<le> r" "r \<le> coord_max"
  shows "coord_min \<le> snap_round r \<and> snap_round r \<le> coord_max"
proof (cases "0 \<le> r")
  case True
  have "r + 1 / 2 < 2 ^ 22 + 1" using assms by (simp add: coord_max_def)
  then have "r + 1 / 2 < of_int (2 ^ 22 + 1)" by simp
  then have "\<lfloor>r + 1 / 2\<rfloor> < 2 ^ 22 + 1" by (simp only: floor_less_iff)
  then have "\<lfloor>r + 1 / 2\<rfloor> \<le> 2 ^ 22" by simp
  then have hi: "real_of_int \<lfloor>r + 1 / 2\<rfloor> \<le> 2 ^ 22"
    using of_int_le_iff [where ?'a = real, of "\<lfloor>r + 1 / 2\<rfloor>" "2 ^ 22"] by simp
  have "0 \<le> \<lfloor>r + 1 / 2\<rfloor>" using True by simp
  then have lo: "0 \<le> real_of_int \<lfloor>r + 1 / 2\<rfloor>" by simp
  have eq: "snap_round r = real_of_int \<lfloor>r + 1 / 2\<rfloor>"
    using True by (simp add: snap_round_def std_round_def std_lround_def)
  show ?thesis unfolding eq coord_min_def coord_max_def using lo hi by linarith
next
  case False
  then have neg: "r < 0" by simp
  have "- (2 ^ 22) - 1 < r - 1 / 2" using assms by (simp add: coord_min_def)
  then have "of_int (- (2 ^ 22) - 1) < r - 1 / 2" by simp
  then have "- (2 ^ 22) - 1 < \<lceil>r - 1 / 2\<rceil>" by (simp only: less_ceiling_iff)
  then have "- (2 ^ 22) \<le> \<lceil>r - 1 / 2\<rceil>" by simp
  then have lo: "- (2 ^ 22) \<le> real_of_int \<lceil>r - 1 / 2\<rceil>"
    using of_int_le_iff [where ?'a = real, of "- (2 ^ 22)" "\<lceil>r - 1 / 2\<rceil>"] by simp
  have "\<lceil>r - 1 / 2\<rceil> \<le> 0" using neg by (simp add: ceiling_le_iff)
  then have hi: "real_of_int \<lceil>r - 1 / 2\<rceil> \<le> 0" by simp
  have eq: "snap_round r = real_of_int \<lceil>r - 1 / 2\<rceil>"
    using False by (simp add: snap_round_def std_round_def std_lround_def)
  show ?thesis unfolding eq coord_min_def coord_max_def using lo hi by linarith
qed

lemma snap_half_bounds:
  assumes "coord_min \<le> r" "r \<le> coord_max"
  shows "coord_min \<le> snap_half r \<and> snap_half r \<le> coord_max + 1 / 2"
proof -
  have "of_int (- (2 ^ 22)) \<le> r" using assms by (simp add: coord_min_def)
  then have "- (2 ^ 22) \<le> \<lfloor>r\<rfloor>" by (simp only: le_floor_iff)
  then have lo: "- (2 ^ 22) \<le> real_of_int \<lfloor>r\<rfloor>"
    using of_int_le_iff [where ?'a = real, of "- (2 ^ 22)" "\<lfloor>r\<rfloor>"] by simp
  have "real_of_int \<lfloor>r\<rfloor> \<le> r" by simp
  with assms have hi: "real_of_int \<lfloor>r\<rfloor> \<le> 2 ^ 22" by (simp add: coord_max_def)
  have "- (2 ^ 52) \<le> r" "r < 2 ^ 52"
    using assms by (simp_all add: coord_min_def coord_max_def)
  then have eq: "snap_half r = real_of_int \<lfloor>r\<rfloor> + 1 / 2"
    by (simp add: snap_half_exact std_floor_def)
  show ?thesis unfolding eq coord_min_def coord_max_def using lo hi by linarith
qed

lemma snapper_general_bounds:
  assumes "coord_min \<le> r" "r \<le> coord_max"
  shows "coord_min \<le> snapper_general snp lw r \<and> snapper_general snp lw r \<le> coord_max + 1 / 2"
  using snap_half_bounds [OF assms] snap_round_bounds [OF assms] assms
  by (simp add: snapper_general_def)

lemma snapper_general_bounds_integer:
  assumes "coord_min \<le> r" "r \<le> coord_max"
    and "\<not> snp \<or> \<not> (0 < lw \<and> (lw < 1 \<or> std_lround lw smod 2 = 1))"
  shows "coord_min \<le> snapper_general snp lw r \<and> snapper_general snp lw r \<le> coord_max"
  using snap_round_bounds [OF assms(1,2)] assms
  by (auto simp add: snapper_general_def)

lemma path_snap_new_path: "path_snap (cairo_new_path cr) = path_snap cr"
proof -
  have "has_vector_surface (cairo_new_path cr) = has_vector_surface cr"
    by (simp add: has_vector_surface_def cairo_new_path_def)
  moreover have "get_additional_state_cr (cairo_new_path cr) = get_additional_state_cr cr"
    by (simp add: get_additional_state_cr_def cairo_new_path_def)
  ultimately show ?thesis by (simp add: path_snap_def cong: if_cong)
qed

lemma gs_line_width_new_path: "gstate (cairo_new_path cr) = gstate cr"
  by (simp add: cairo_new_path_def)

lemma load_path_exact_codes_Inr:
  assumes "load_path_exact cr p matrix = Some (Inr cr')" and "codes p = Some cs"
  shows "\<exists>snp. path_snap cr = Inr snp
     \<and> load_path_loop (snapper_general snp (gs_line_width (gstate cr))) matrix (vertices p) cs
          (shape0 (vertices p)) 0 (cairo_new_path cr) = Inr cr'"
  using assms
  by (auto simp: load_path_exact_def load_path_exact_codes_def Let_def path_snap_new_path
        gs_line_width_new_path
      split: if_splits elim!: and_then_InrE)

lemma std_clamp_Fin: "std_clamp (Fin r) (Fin coord_min) (Fin coord_max) = Fin (clamp_coord r)"
  by (simp add: std_clamp_def clamp_coord_def)

lemma load_path_step_MOVETO:
  assumes "vertex_at vs i = Inr v" "cairo_matrix_transform_point m v = (Fin x, Fin y)"
    and "cs ! i = MOVETO"
  shows "load_path_step S m vs cs i c
      = Inr (0, cairo_move_to (Fin (S (clamp_coord x))) (Fin (S (clamp_coord y))) c)"
  using assms by (simp add: load_path_step_def and_then_def Let_def std_clamp_Fin)

lemma load_path_step_LINETO:
  assumes "vertex_at vs i = Inr v" "cairo_matrix_transform_point m v = (Fin x, Fin y)"
    and "cs ! i = LINETO"
  shows "load_path_step S m vs cs i c
      = Inr (0, cairo_line_to (Fin (S (clamp_coord x))) (Fin (S (clamp_coord y))) c)"
  using assms by (simp add: load_path_step_def and_then_def Let_def std_clamp_Fin)

lemma load_path_step_CURVE3:
  assumes "vertex_at vs i = Inr v" "cairo_matrix_transform_point m v = (Fin x, Fin y)"
    and "vertex_at vs (i + 1) = Inr v1" "cairo_matrix_transform_point m v1 = (Fin x1, Fin y1)"
    and "cs ! i = CURVE3"
  shows "load_path_step S m vs cs i c
      = Inr (1, if cairo_has_current_point c
                then cairo_curve_to
                       (ddiv (dadd (fst (cairo_get_current_point c))
                                (dmul (Fin 2) (Fin (clamp_coord x)))) (Fin 3))
                       (ddiv (dadd (snd (cairo_get_current_point c))
                                (dmul (Fin 2) (Fin (clamp_coord y)))) (Fin 3))
                       (ddiv (dadd (dmul (Fin 2) (Fin (clamp_coord x))) (Fin (clamp_coord x1)))
                          (Fin 3))
                       (ddiv (dadd (dmul (Fin 2) (Fin (clamp_coord y))) (Fin (clamp_coord y1)))
                          (Fin 3))
                       (Fin (S (clamp_coord x1))) (Fin (S (clamp_coord y1))) c
                else cairo_move_to (Fin (S (clamp_coord x1))) (Fin (S (clamp_coord y1))) c)"
  using assms by (simp add: load_path_step_def and_then_def Let_def std_clamp_Fin)

lemma load_path_step_CURVE4:
  assumes "vertex_at vs i = Inr v" "cairo_matrix_transform_point m v = (Fin x, Fin y)"
    and "vertex_at vs (i + 1) = Inr v1" "cairo_matrix_transform_point m v1 = (Fin x1, Fin y1)"
    and "vertex_at vs (i + 2) = Inr v2" "cairo_matrix_transform_point m v2 = (Fin x2, Fin y2)"
    and "cs ! i = CURVE4"
  shows "load_path_step S m vs cs i c
      = Inr (2, if cairo_has_current_point c
                then cairo_curve_to (Fin (clamp_coord x)) (Fin (clamp_coord y))
                       (Fin (clamp_coord x1)) (Fin (clamp_coord y1))
                       (Fin (S (clamp_coord x2))) (Fin (S (clamp_coord y2))) c
                else cairo_move_to (Fin (S (clamp_coord x2))) (Fin (S (clamp_coord y2))) c)"
  using assms by (simp add: load_path_step_def and_then_def Let_def std_clamp_Fin)

lemma load_path_loop_polyline:
  assumes fin: "\<forall>j. i \<le> j \<and> j < n \<longrightarrow>
        (\<exists>v. vertex_at vs j = Inr v \<and> cairo_matrix_transform_point m v = (Fin (X j), Fin (Y j)))"
    and str: "\<forall>j. i \<le> j \<and> j < n \<longrightarrow> cs ! j = MOVETO \<or> cs ! j = LINETO"
  shows "\<exists>c'. load_path_loop S m vs cs n i c = Inr c'
      \<and> path c' = path c @ map (\<lambda>j.
           (if cs ! j = MOVETO \<or> (j = i \<and> current_point c = None)
            then PATH_MOVE_TO else PATH_LINE_TO)
             (Fin (S (clamp_coord (X j)))) (Fin (S (clamp_coord (Y j))))) [i..<n]"
  using assms
proof (induction "n - i" arbitrary: i c)
  case 0
  then show ?case by (subst load_path_loop.simps) simp
next
  case (Suc k)
  then have lt: "i < n" by simp
  from Suc.prems(1) lt obtain v where
    v: "vertex_at vs i = Inr v" "cairo_matrix_transform_point m v = (Fin (X i), Fin (Y i))"
    by blast
  let ?x = "Fin (S (clamp_coord (X i)))" and ?y = "Fin (S (clamp_coord (Y i)))"
  define c1 where "c1 = (if cs ! i = MOVETO then cairo_move_to ?x ?y c else cairo_line_to ?x ?y c)"
  have step: "load_path_step S m vs cs i c = Inr (0, c1)"
    using Suc.prems(2) lt load_path_step_MOVETO [OF v] load_path_step_LINETO [OF v]
    by (auto simp: c1_def)
  have cp: "current_point c1 \<noteq> None"
    by (simp add: c1_def cairo_move_to_def cairo_line_to_def split: option.splits)
  have p1: "path c1 = path c @ [(if cs ! i = MOVETO \<or> current_point c = None
            then PATH_MOVE_TO else PATH_LINE_TO) ?x ?y]"
    by (simp add: c1_def cairo_move_to_def cairo_line_to_def split: option.splits)
  have k: "k = n - Suc i" using Suc.hyps(2) by simp
  have fin': "\<forall>j. Suc i \<le> j \<and> j < n \<longrightarrow>
        (\<exists>v. vertex_at vs j = Inr v \<and> cairo_matrix_transform_point m v = (Fin (X j), Fin (Y j)))"
    using Suc.prems(1) by simp
  have str': "\<forall>j. Suc i \<le> j \<and> j < n \<longrightarrow> cs ! j = MOVETO \<or> cs ! j = LINETO"
    using Suc.prems(2) by simp
  from Suc.hyps(1) [OF k fin' str', of c1] obtain c' where
    c': "load_path_loop S m vs cs n (Suc i) c1 = Inr c'"
      "path c' = path c1 @ map (\<lambda>j.
           (if cs ! j = MOVETO \<or> (j = Suc i \<and> current_point c1 = None)
            then PATH_MOVE_TO else PATH_LINE_TO)
             (Fin (S (clamp_coord (X j)))) (Fin (S (clamp_coord (Y j))))) [Suc i..<n]"
    by blast
  have loop: "load_path_loop S m vs cs n i c = Inr c'"
    using lt step c'(1) by (subst load_path_loop.simps) simp
  have m: "map (\<lambda>j.
           (if cs ! j = MOVETO \<or> (j = Suc i \<and> current_point c1 = None)
            then PATH_MOVE_TO else PATH_LINE_TO)
             (Fin (S (clamp_coord (X j)))) (Fin (S (clamp_coord (Y j))))) [Suc i..<n]
      = map (\<lambda>j.
           (if cs ! j = MOVETO \<or> (j = i \<and> current_point c = None)
            then PATH_MOVE_TO else PATH_LINE_TO)
             (Fin (S (clamp_coord (X j)))) (Fin (S (clamp_coord (Y j))))) [Suc i..<n]"
    using cp by (intro map_cong) auto
  have "path c' = path c @ map (\<lambda>j.
           (if cs ! j = MOVETO \<or> (j = i \<and> current_point c = None)
            then PATH_MOVE_TO else PATH_LINE_TO)
             (Fin (S (clamp_coord (X j)))) (Fin (S (clamp_coord (Y j))))) [i..<n]"
    unfolding c'(2) m p1 upt_conv_Cons [OF lt] by simp
  with loop show ?case by blast
qed


text \<open>
  C4, as the code has it. In the overload for a path with codes every transformed
  coordinate is clamped (\<open>clamp_coord\<close>), and the snapper is applied to the clamped
  value of a point that is moved to, drawn to or ends a curve; the control points of a
  cubic curve are the clamped values, those of a quadratic curve are computed from them
  and from the current point. When the loader succeeds, the path it leaves is the result
  of the loop of these steps; for a path of moves and lines with finite vertices it is
  the list of the snapped clamped vertices. Every coordinate of the path is finite and
  lies in \<open>[-2^22, 2^22 + 1/2]\<close>; it lies in \<open>[-2^22, 2^22]\<close> when snapping is off or
  the snapper selected is the one that rounds to integers, that is unless
  \<open>0 < lw\<close> and (\<open>lw < 1\<close> or \<open>lround(lw)\<close> is odd).
\<close>

theorem load_path_exact_clamped:
  assumes "load_path_exact cr p matrix = Some (Inr cr')" and "codes p = Some cs"
  shows "\<exists>snp. path_snap cr = Inr snp
     \<and> load_path_loop (snapper_general snp (gs_line_width (gstate cr))) matrix (vertices p) cs
          (shape0 (vertices p)) 0 (cairo_new_path cr) = Inr cr'
     \<and> path_within coord_min (coord_max + 1 / 2) (path cr')
     \<and> (\<not> snp \<or> \<not> (0 < gs_line_width (gstate cr)
                \<and> (gs_line_width (gstate cr) < 1
                    \<or> std_lround (gs_line_width (gstate cr)) smod 2 = 1))
        \<longrightarrow> path_within coord_min coord_max (path cr'))
     \<and> ((\<forall>j. j < shape0 (vertices p) \<longrightarrow>
            (cs ! j = MOVETO \<or> cs ! j = LINETO)
            \<and> (\<exists>v. vertex_at (vertices p) j = Inr v
                   \<and> cairo_matrix_transform_point matrix v = (Fin (X j), Fin (Y j))))
        \<longrightarrow> path cr' = map (\<lambda>j.
               (if cs ! j = MOVETO \<or> j = 0 then PATH_MOVE_TO else PATH_LINE_TO)
                 (Fin (snapper_general snp (gs_line_width (gstate cr)) (clamp_coord (X j))))
                 (Fin (snapper_general snp (gs_line_width (gstate cr)) (clamp_coord (Y j)))))
               [0..<shape0 (vertices p)])
     \<and> (\<forall>S i c v x y. vertex_at (vertices p) i = Inr v
            \<and> cairo_matrix_transform_point matrix v = (Fin x, Fin y) \<longrightarrow>
          (cs ! i = MOVETO \<longrightarrow> load_path_step S matrix (vertices p) cs i c
             = Inr (0, cairo_move_to (Fin (S (clamp_coord x))) (Fin (S (clamp_coord y))) c))
          \<and> (cs ! i = LINETO \<longrightarrow> load_path_step S matrix (vertices p) cs i c
             = Inr (0, cairo_line_to (Fin (S (clamp_coord x))) (Fin (S (clamp_coord y))) c))
          \<and> (\<forall>v1 x1 y1. cs ! i = CURVE3 \<and> vertex_at (vertices p) (i + 1) = Inr v1
                \<and> cairo_matrix_transform_point matrix v1 = (Fin x1, Fin y1)
                \<and> \<not> cairo_has_current_point c \<longrightarrow>
              load_path_step S matrix (vertices p) cs i c
                = Inr (1, cairo_move_to (Fin (S (clamp_coord x1))) (Fin (S (clamp_coord y1))) c))
          \<and> (\<forall>v1 x1 y1. cs ! i = CURVE3 \<and> vertex_at (vertices p) (i + 1) = Inr v1
                \<and> cairo_matrix_transform_point matrix v1 = (Fin x1, Fin y1)
                \<and> cairo_has_current_point c \<longrightarrow>
              load_path_step S matrix (vertices p) cs i c
                = Inr (1, cairo_curve_to
                       (ddiv (dadd (fst (cairo_get_current_point c))
                                (dmul (Fin 2) (Fin (clamp_coord x)))) (Fin 3))
                       (ddiv (dadd (snd (cairo_get_current_point c))
                                (dmul (Fin 2) (Fin (clamp_coord y)))) (Fin 3))
                       (ddiv (dadd (dmul (Fin 2) (Fin (clamp_coord x))) (Fin (clamp_coord x1)))
                          (Fin 3))
                       (ddiv (dadd (dmul (Fin 2) (Fin (clamp_coord y))) (Fin (clamp_coord y1)))
                          (Fin 3))
                       (Fin (S (clamp_coord x1))) (Fin (S (clamp_coord y1))) c))
          \<and> (\<forall>v1 x1 y1 v2 x2 y2. cs ! i = CURVE4
                \<and> vertex_at (vertices p) (i + 1) = Inr v1
                \<and> cairo_matrix_transform_point matrix v1 = (Fin x1, Fin y1)
                \<and> vertex_at (vertices p) (i + 2) = Inr v2
                \<and> cairo_matrix_transform_point matrix v2 = (Fin x2, Fin y2)
                \<and> cairo_has_current_point c \<longrightarrow>
              load_path_step S matrix (vertices p) cs i c
                = Inr (2, cairo_curve_to (Fin (clamp_coord x)) (Fin (clamp_coord y))
                       (Fin (clamp_coord x1)) (Fin (clamp_coord y1))
                       (Fin (S (clamp_coord x2))) (Fin (S (clamp_coord y2))) c))
          \<and> (\<forall>v1 x1 y1 v2 x2 y2. cs ! i = CURVE4
                \<and> vertex_at (vertices p) (i + 1) = Inr v1
                \<and> cairo_matrix_transform_point matrix v1 = (Fin x1, Fin y1)
                \<and> vertex_at (vertices p) (i + 2) = Inr v2
                \<and> cairo_matrix_transform_point matrix v2 = (Fin x2, Fin y2)
                \<and> \<not> cairo_has_current_point c \<longrightarrow>
              load_path_step S matrix (vertices p) cs i c
                = Inr (2, cairo_move_to (Fin (S (clamp_coord x2))) (Fin (S (clamp_coord y2))) c)))"
proof -
  let ?lw = "gs_line_width (gstate cr)"
  let ?n = "shape0 (vertices p)"
  from load_path_exact_codes_Inr [OF assms] obtain snp where
    snp: "path_snap cr = Inr snp"
    and loop: "load_path_loop (snapper_general snp ?lw) matrix
        (vertices p) cs ?n 0 (cairo_new_path cr) = Inr cr'"
    by blast
  have "path_inv coord_min (coord_max + 1 / 2) cr'"
    by (rule load_path_loop_inv [OF path_inv_new_path _ _ loop])
      (simp_all add: snapper_general_bounds)
  then have a: "path_within coord_min (coord_max + 1 / 2) (path cr')"
    by (simp add: path_inv_def)
  have b: "path_within coord_min coord_max (path cr')"
    if c: "\<not> snp \<or> \<not> (0 < ?lw \<and> (?lw < 1 \<or> std_lround ?lw smod 2 = 1))"
  proof -
    have "path_inv coord_min coord_max cr'"
      by (rule load_path_loop_inv [OF path_inv_new_path _ _ loop])
        (simp_all add: snapper_general_bounds_integer [OF _ _ c])
    then show ?thesis by (simp add: path_inv_def)
  qed
  have d: "path cr' = map (\<lambda>j.
               (if cs ! j = MOVETO \<or> j = 0 then PATH_MOVE_TO else PATH_LINE_TO)
                 (Fin (snapper_general snp ?lw (clamp_coord (X j))))
                 (Fin (snapper_general snp ?lw (clamp_coord (Y j))))) [0..<?n]"
    if h: "\<forall>j. j < ?n \<longrightarrow>
            (cs ! j = MOVETO \<or> cs ! j = LINETO)
            \<and> (\<exists>v. vertex_at (vertices p) j = Inr v
                   \<and> cairo_matrix_transform_point matrix v = (Fin (X j), Fin (Y j)))"
  proof -
    have fin: "\<forall>j. 0 \<le> j \<and> j < ?n \<longrightarrow>
        (\<exists>v. vertex_at (vertices p) j = Inr v
           \<and> cairo_matrix_transform_point matrix v = (Fin (X j), Fin (Y j)))"
      using h by blast
    have str: "\<forall>j. 0 \<le> j \<and> j < ?n \<longrightarrow> cs ! j = MOVETO \<or> cs ! j = LINETO"
      using h by blast
    from load_path_loop_polyline [OF fin str, of "snapper_general snp ?lw" "cairo_new_path cr"]
      loop
    show ?thesis by (simp add: cairo_new_path_def)
  qed
  have e: "(cs ! i = MOVETO \<longrightarrow> load_path_step S matrix (vertices p) cs i c
             = Inr (0, cairo_move_to (Fin (S (clamp_coord x))) (Fin (S (clamp_coord y))) c))
          \<and> (cs ! i = LINETO \<longrightarrow> load_path_step S matrix (vertices p) cs i c
             = Inr (0, cairo_line_to (Fin (S (clamp_coord x))) (Fin (S (clamp_coord y))) c))
          \<and> (\<forall>v1 x1 y1. cs ! i = CURVE3 \<and> vertex_at (vertices p) (i + 1) = Inr v1
                \<and> cairo_matrix_transform_point matrix v1 = (Fin x1, Fin y1)
                \<and> \<not> cairo_has_current_point c \<longrightarrow>
              load_path_step S matrix (vertices p) cs i c
                = Inr (1, cairo_move_to (Fin (S (clamp_coord x1))) (Fin (S (clamp_coord y1))) c))
          \<and> (\<forall>v1 x1 y1. cs ! i = CURVE3 \<and> vertex_at (vertices p) (i + 1) = Inr v1
                \<and> cairo_matrix_transform_point matrix v1 = (Fin x1, Fin y1)
                \<and> cairo_has_current_point c \<longrightarrow>
              load_path_step S matrix (vertices p) cs i c
                = Inr (1, cairo_curve_to
                       (ddiv (dadd (fst (cairo_get_current_point c))
                                (dmul (Fin 2) (Fin (clamp_coord x)))) (Fin 3))
                       (ddiv (dadd (snd (cairo_get_current_point c))
                                (dmul (Fin 2) (Fin (clamp_coord y)))) (Fin 3))
                       (ddiv (dadd (dmul (Fin 2) (Fin (clamp_coord x))) (Fin (clamp_coord x1)))
                          (Fin 3))
                       (ddiv (dadd (dmul (Fin 2) (Fin (clamp_coord y))) (Fin (clamp_coord y1)))
                          (Fin 3))
                       (Fin (S (clamp_coord x1))) (Fin (S (clamp_coord y1))) c))
          \<and> (\<forall>v1 x1 y1 v2 x2 y2. cs ! i = CURVE4
                \<and> vertex_at (vertices p) (i + 1) = Inr v1
                \<and> cairo_matrix_transform_point matrix v1 = (Fin x1, Fin y1)
                \<and> vertex_at (vertices p) (i + 2) = Inr v2
                \<and> cairo_matrix_transform_point matrix v2 = (Fin x2, Fin y2)
                \<and> cairo_has_current_point c \<longrightarrow>
              load_path_step S matrix (vertices p) cs i c
                = Inr (2, cairo_curve_to (Fin (clamp_coord x)) (Fin (clamp_coord y))
                       (Fin (clamp_coord x1)) (Fin (clamp_coord y1))
                       (Fin (S (clamp_coord x2))) (Fin (S (clamp_coord y2))) c))
          \<and> (\<forall>v1 x1 y1 v2 x2 y2. cs ! i = CURVE4
                \<and> vertex_at (vertices p) (i + 1) = Inr v1
                \<and> cairo_matrix_transform_point matrix v1 = (Fin x1, Fin y1)
                \<and> vertex_at (vertices p) (i + 2) = Inr v2
                \<and> cairo_matrix_transform_point matrix v2 = (Fin x2, Fin y2)
                \<and> \<not> cairo_has_current_point c \<longrightarrow>
              load_path_step S matrix (vertices p) cs i c
                = Inr (2, cairo_move_to (Fin (S (clamp_coord x2))) (Fin (S (clamp_coord y2))) c))"
    if v: "vertex_at (vertices p) i = Inr v"
      "cairo_matrix_transform_point matrix v = (Fin x, Fin y)" for S i c v x y
    using load_path_step_MOVETO [OF v] load_path_step_LINETO [OF v]
      load_path_step_CURVE3 [OF v] load_path_step_CURVE4 [OF v]
    by simp
  show ?thesis
    apply (intro exI [of _ snp] conjI)
         apply (rule snp)
        apply (rule loop)
       apply (rule a)
      apply (use b in blast)
     apply (use d in blast)
    apply (intro allI impI)
    apply (elim conjE)
    apply (rule e)
     apply assumption+
    done
qed

lemma one_smod_two: "(1::int) smod 2 = 1"
  by (simp add: signed_modulo_int_def)

lemma two_smod_two: "(2::int) smod 2 = 0"
  by (simp add: signed_modulo_int_def)

lemma load_path_exact_even_width:
  "load_path_exact
      (gcr_cr (new_GraphicsContextRenderer (cr_from_image_args 1 1) 1 1 72 (0, 0, 0, 1) 1))
      \<lparr>vertices = \<lparr>shape0 = 1, shape1 = 2,
                     elem = (\<lambda>i j. if j = 0 then Fin 5000000 else Fin 0)\<rparr>,
       codes = Some [MOVETO]\<rparr>
      \<lparr>m_xx = Fin 1, m_yx = Fin 0, m_xy = Fin 0, m_yy = Fin 1, m_x0 = Fin 0, m_y0 = Fin 0\<rparr>
   = Some (Inr ((gcr_cr (new_GraphicsContextRenderer (cr_from_image_args 1 1)
        1 1 72 (0, 0, 0, 1) 1))
        \<lparr>path := [PATH_MOVE_TO (Fin 4194304) (Fin 0)],
         current_point := Some (Fin 4194304, Fin 0),
         last_move_point := (Fin 4194304, Fin 0)\<rparr>))"
  by (simp add: load_path_exact_def load_path_exact_codes_def Let_def path_snap_def
      has_vector_surface_def get_additional_state_cr_def and_then_def cairo_new_path_def
      new_GraphicsContextRenderer_def cr_from_image_args_def load_path_loop.simps
      load_path_step_def vertex_at_def cairo_matrix_transform_point_def std_clamp_def
      coord_min_def coord_max_def snapper_general_def std_lround_def snap_round_def
      std_round_def cairo_move_to_def two_smod_two)

lemma load_path_exact_odd_width:
  "load_path_exact
      (gcr_cr (new_GraphicsContextRenderer
        ((cr_from_image_args 1 1)\<lparr>gstate :=
           (gstate (cr_from_image_args 1 1))\<lparr>gs_line_width := 1\<rparr>\<rparr>)
        1 1 72 (0, 0, 0, 1) 1))
      \<lparr>vertices = \<lparr>shape0 = 1, shape1 = 2,
                     elem = (\<lambda>i j. if j = 0 then Fin 5000000 else Fin 0)\<rparr>,
       codes = Some [MOVETO]\<rparr>
      \<lparr>m_xx = Fin 1, m_yx = Fin 0, m_xy = Fin 0, m_yy = Fin 1, m_x0 = Fin 0, m_y0 = Fin 0\<rparr>
   = Some (Inr ((gcr_cr (new_GraphicsContextRenderer
        ((cr_from_image_args 1 1)\<lparr>gstate :=
           (gstate (cr_from_image_args 1 1))\<lparr>gs_line_width := 1\<rparr>\<rparr>)
        1 1 72 (0, 0, 0, 1) 1))
        \<lparr>path := [PATH_MOVE_TO (Fin (8388609 / 2)) (Fin (1 / 2))],
         current_point := Some (Fin (8388609 / 2), Fin (1 / 2)),
         last_move_point := (Fin (8388609 / 2), Fin (1 / 2))\<rparr>))"
  by (simp add: load_path_exact_def load_path_exact_codes_def Let_def path_snap_def
      has_vector_surface_def get_additional_state_cr_def and_then_def cairo_new_path_def
      new_GraphicsContextRenderer_def cr_from_image_args_def load_path_loop.simps
      load_path_step_def vertex_at_def cairo_matrix_transform_point_def std_clamp_def
      coord_min_def coord_max_def snapper_general_def std_lround_def snap_half_def
      std_floor_def cairo_move_to_def one_smod_two)

theorem load_path_exact_clamped_witness:
  "\<exists>cr'. load_path_exact
      (gcr_cr (new_GraphicsContextRenderer (cr_from_image_args 1 1) 1 1 72 (0, 0, 0, 1) 1))
      \<lparr>vertices = \<lparr>shape0 = 1, shape1 = 2,
                     elem = (\<lambda>i j. if j = 0 then Fin 5000000 else Fin 0)\<rparr>,
       codes = Some [MOVETO]\<rparr>
      \<lparr>m_xx = Fin 1, m_yx = Fin 0, m_xy = Fin 0, m_yy = Fin 1, m_x0 = Fin 0, m_y0 = Fin 0\<rparr>
       = Some (Inr cr')
     \<and> path cr' = [PATH_MOVE_TO (Fin 4194304) (Fin 0)]
     \<and> path_within coord_min (coord_max + 1 / 2) (path cr')
     \<and> path_within coord_min coord_max (path cr')"
proof -
  let ?CR = "gcr_cr (new_GraphicsContextRenderer (cr_from_image_args 1 1) 1 1 72 (0, 0, 0, 1) 1)"
  let ?P = "\<lparr>vertices = \<lparr>shape0 = 1, shape1 = 2,
                     elem = (\<lambda>i j. if j = 0 then Fin 5000000 else Fin 0)\<rparr>,
       codes = Some [MOVETO]\<rparr>"
  let ?M = "\<lparr>m_xx = Fin 1, m_yx = Fin 0, m_xy = Fin 0, m_yy = Fin 1,
             m_x0 = Fin 0, m_y0 = Fin 0\<rparr>"
  let ?cr' = "?CR\<lparr>path := [PATH_MOVE_TO (Fin 4194304) (Fin 0)],
         current_point := Some (Fin 4194304, Fin 0),
         last_move_point := (Fin 4194304, Fin 0)\<rparr>"
  note e = load_path_exact_even_width
  have c: "codes ?P = Some [MOVETO]" by simp
  have lw: "gs_line_width (gstate ?CR) = 2"
    by (simp add: new_GraphicsContextRenderer_def cr_from_image_args_def)
  have w: "\<not> (0 < (2::real) \<and> ((2::real) < 1 \<or> std_lround 2 smod 2 = 1))"
    by (simp add: std_lround_def two_smod_two)
  have poly: "\<forall>j. j < shape0 (vertices ?P) \<longrightarrow>
            ([MOVETO] ! j = MOVETO \<or> [MOVETO] ! j = LINETO)
            \<and> (\<exists>v. vertex_at (vertices ?P) j = Inr v
                   \<and> cairo_matrix_transform_point ?M v = (Fin 5000000, Fin 0))"
    by (simp add: vertex_at_def cairo_matrix_transform_point_def)
  have sg: "snapper_general snp 2 (clamp_coord 5000000) = 4194304"
    "snapper_general snp 2 (clamp_coord 0) = 0" for snp
    by (simp_all add: snapper_general_def clamp_coord_def coord_min_def coord_max_def
        snap_round_def std_round_def std_lround_def two_smod_two)
  from load_path_exact_clamped [OF e c, of "\<lambda>j. 5000000" "\<lambda>j. 0"] obtain snp where
    r: "path_within coord_min (coord_max + 1 / 2) (path ?cr')"
      "\<not> snp \<or> \<not> (0 < gs_line_width (gstate ?CR)
                \<and> (gs_line_width (gstate ?CR) < 1
                    \<or> std_lround (gs_line_width (gstate ?CR)) smod 2 = 1))
        \<longrightarrow> path_within coord_min coord_max (path ?cr')"
      "(\<forall>j. j < shape0 (vertices ?P) \<longrightarrow>
            ([MOVETO] ! j = MOVETO \<or> [MOVETO] ! j = LINETO)
            \<and> (\<exists>v. vertex_at (vertices ?P) j = Inr v
                   \<and> cairo_matrix_transform_point ?M v = (Fin 5000000, Fin 0)))
        \<longrightarrow> path ?cr' = map (\<lambda>j.
               (if [MOVETO] ! j = MOVETO \<or> j = 0 then PATH_MOVE_TO else PATH_LINE_TO)
                 (Fin (snapper_general snp (gs_line_width (gstate ?CR)) (clamp_coord 5000000)))
                 (Fin (snapper_general snp (gs_line_width (gstate ?CR)) (clamp_coord 0))))
               [0..<shape0 (vertices ?P)]"
    by (elim exE conjE) (rule that, assumption+)
  from r(2) w have r2: "path_within coord_min coord_max (path ?cr')"
    unfolding lw by blast
  from r(3) poly have "path ?cr' = map (\<lambda>j.
               (if [MOVETO] ! j = MOVETO \<or> j = 0 then PATH_MOVE_TO else PATH_LINE_TO)
                 (Fin (snapper_general snp (gs_line_width (gstate ?CR)) (clamp_coord 5000000)))
                 (Fin (snapper_general snp (gs_line_width (gstate ?CR)) (clamp_coord 0))))
               [0..<shape0 (vertices ?P)]"
    by blast
  then have r3: "path ?cr' = [PATH_MOVE_TO (Fin 4194304) (Fin 0)]"
    unfolding lw sg by simp
  from e r(1) r2 r3 show ?thesis by blast
qed

text \<open>
  The claim as the specification states it fails when the snapper moves a clamped
  coordinate: with snapping on and a line width of 1, the vertex \<open>(5000000, 0)\<close> is
  clamped to \<open>2^22\<close> and then snapped to \<open>2^22 + 1/2\<close>, which is the coordinate that
  reaches the surface.
\<close>

theorem load_path_exact_snapped_above_bound:
  "(case load_path_exact
      (gcr_cr (new_GraphicsContextRenderer
        ((cr_from_image_args 1 1)\<lparr>gstate :=
           (gstate (cr_from_image_args 1 1))\<lparr>gs_line_width := 1\<rparr>\<rparr>)
        1 1 72 (0, 0, 0, 1) 1))
      \<lparr>vertices = \<lparr>shape0 = 1, shape1 = 2,
                     elem = (\<lambda>i j. if j = 0 then Fin 5000000 else Fin 0)\<rparr>,
       codes = Some [MOVETO]\<rparr>
      \<lparr>m_xx = Fin 1, m_yx = Fin 0, m_xy = Fin 0, m_yy = Fin 1, m_x0 = Fin 0, m_y0 = Fin 0\<rparr>
    of Some (Inr cr') \<Rightarrow>
         path cr' = [PATH_MOVE_TO (Fin (coord_max + 1 / 2)) (Fin (1 / 2))]
         \<and> \<not> path_within coord_min coord_max (path cr')
     | _ \<Rightarrow> False)"
  by (subst load_path_exact_odd_width)
    (simp add: path_within_def coord_max_def coord_min_def)

subsection \<open>Marker stamps\<close>

text \<open>
  The size of the grid is computed from the rounded quotient: for the threshold that is
  the double \<^verbatim>\<open>1. / 3\<close> the quotient is rounded to 3, and the grid has 3 rows.
\<close>

lemma marker_n_subpix_1: "marker_n_subpix (Fin 1) = 1"
  by (simp add: marker_n_subpix_def round_to_double_def double_ulp_def Let_def)

lemma floor_log_reciprocal_one_third: "\<lfloor>log 2 (1 / one_third)\<rfloor> = 1"
proof -
  have "2 powr (of_int 1) \<le> 1 / one_third \<and> 1 / one_third < 2 powr (of_int 1 + 1)"
    by (simp add: one_third_def)
  moreover have "0 < 1 / one_third" by (simp add: one_third_def)
  ultimately show ?thesis by (subst floor_log_eq_powr_iff) simp_all
qed

lemma marker_n_subpix_one_third: "marker_n_subpix (Fin one_third) = 3"
proof -
  have p: "0 < one_third" "1 / 16 \<le> one_third" "one_third \<noteq> 0" by (simp_all add: one_third_def)
  have a: "\<bar>1 / one_third\<bar> = 1 / one_third" using p by simp
  have u: "double_ulp (1 / one_third) = 1 / 2 ^ 51"
    unfolding double_ulp_def a floor_log_reciprocal_one_third by simp
  have r: "round_to_double (1 / one_third) = 3"
    unfolding round_to_double_def u Let_def by (simp add: one_third_def)
  show ?thesis using p by (simp add: marker_n_subpix_def r)
qed

text \<open>
  A context without a stack of additional states on an image surface: the loading of a
  path raises at the point where it reads the snap flag, whatever the path, unless the
  path is refused before. So does \<open>fill_and_stroke_exact\<close>, which loads the path for
  the stroke if not for the fill, and so does the drawing of the first patch on the
  context of the raster surface.
\<close>

lemma and_then_opt_simps:
  "and_then_opt None f = None"
  "and_then_opt (Some (Inl e)) f = Some (Inl e)"
  "and_then_opt (Some (Inr x)) f = f x"
  by (simp_all add: and_then_opt_def)

lemma load_path_exact_no_state:
  assumes "state_stack cr = None" "surface_type (target cr) = CAIRO_SURFACE_TYPE_IMAGE"
  shows "load_path_exact cr p m = Some (Inl
     (if shape1 (vertices p) \<noteq> 2
      then invalid_argument ''vertices must have shape (n, 2)''
      else if codes p \<noteq> None \<and> length (the (codes p)) \<noteq> shape0 (vertices p)
      then invalid_argument ''Lengths of vertices and codes do not match''
      else runtime_error ''cairo_t* missing additional state''))"
proof -
  have ps: "path_snap cr = Inl (runtime_error ''cairo_t* missing additional state'')"
    using assms
    by (simp add: path_snap_def has_vector_surface_def get_additional_state_cr_def
        and_then_def)
  show ?thesis
    by (cases "codes p")
      (simp_all add: load_path_exact_def load_path_exact_codeless_def load_path_exact_codes_def
        Let_def ps path_snap_new_path and_then_def)
qed

lemma fill_and_stroke_exact_no_state:
  assumes "state_stack cr = None" "surface_type (target cr) = CAIRO_SURFACE_TYPE_IMAGE"
  shows "fill_and_stroke_exact cr uc p m fill (Some c) = Some (Inl
     (if shape1 (vertices p) \<noteq> 2
      then invalid_argument ''vertices must have shape (n, 2)''
      else if codes p \<noteq> None \<and> length (the (codes p)) \<noteq> shape0 (vertices p)
      then invalid_argument ''Lengths of vertices and codes do not match''
      else runtime_error ''cairo_t* missing additional state''))"
proof -
  have l: "load_path_exact c' p m = Some (Inl
     (if shape1 (vertices p) \<noteq> 2
      then invalid_argument ''vertices must have shape (n, 2)''
      else if codes p \<noteq> None \<and> length (the (codes p)) \<noteq> shape0 (vertices p)
      then invalid_argument ''Lengths of vertices and codes do not match''
      else runtime_error ''cairo_t* missing additional state''))"
    if "state_stack c' = None" "surface_type (target c') = CAIRO_SURFACE_TYPE_IMAGE" for c'
    by (rule load_path_exact_no_state [OF that])
  have s1: "state_stack (cairo_set_source_rgba k (cairo_save cr)) = None"
    "surface_type (target (cairo_set_source_rgba k (cairo_save cr))) = CAIRO_SURFACE_TYPE_IMAGE"
    for k
    using assms by (simp_all add: cairo_set_source_rgba_def cairo_save_def)
  define circ where "circ k = cairo_restore (cairo_stroke (cairo_set_line_width 2
      (cairo_close_path (cairo_move_to (m_x0 m) (m_y0 m) (cairo_new_path
        (cairo_save (cairo_set_source_rgba k (cairo_save cr))))))))" for k
  have s2: "state_stack (cairo_set_source_rgba c (circ k)) = None"
    "surface_type (target (cairo_set_source_rgba c (circ k))) = CAIRO_SURFACE_TYPE_IMAGE" for k
    using assms
    by (simp_all add: circ_def cairo_set_source_rgba_def cairo_save_def cairo_restore_def
        cairo_stroke_def cairo_new_path_def cairo_set_line_width_def cairo_close_path_def
        cairo_move_to_def split: list.splits option.splits)
  show ?thesis
  proof (cases fill)
    case None
    then show ?thesis
      by (simp add: fill_and_stroke_exact_def Let_def and_then_opt_simps l [OF s1])
  next
    case (Some k)
    show ?thesis
    proof (cases uc)
      case True
      with Some show ?thesis
        by (simp add: fill_and_stroke_exact_def Let_def and_then_opt_simps
            l [OF s2, unfolded circ_def])
    next
      case False
      with Some show ?thesis
        by (simp add: fill_and_stroke_exact_def Let_def and_then_opt_simps l [OF s1])
    qed
  qed
qed

lemma stamp_patches_no_state:
  assumes "state_stack cr = None" "surface_type (target cr) = CAIRO_SURFACE_TYPE_IMAGE"
  shows "stamp_patches mk (off # rest) cr = Some (Inl
     (if shape1 (vertices (mk_path mk)) \<noteq> 2
      then invalid_argument ''vertices must have shape (n, 2)''
      else if codes (mk_path mk) \<noteq> None
          \<and> length (the (codes (mk_path mk))) \<noteq> shape0 (vertices (mk_path mk))
      then invalid_argument ''Lengths of vertices and codes do not match''
      else runtime_error ''cairo_t* missing additional state''))"
  by (simp add: draw_one_marker_def fill_and_stroke_exact_no_state [OF assms]
      and_then_opt_simps)

lemma raster_cr_no_state:
  "state_stack (copy_for_marker_stamping cr (cr_from_image_args w h)) = None"
  "surface_type (target (copy_for_marker_stamping cr (cr_from_image_args w h)))
     = CAIRO_SURFACE_TYPE_IMAGE"
  by (simp_all add: copy_for_marker_stamping_def cr_from_image_args_def
      cairo_set_source_rgba_def cairo_set_line_width_def cairo_set_antialias_def)


lemma and_then_opt_InrE:
  assumes "and_then_opt r f = Some (Inr y)"
  obtains x where "r = Some (Inr x)" and "f x = Some (Inr y)"
  using assms by (cases r) (auto simp: and_then_opt_def split: sum.splits)

lemma stamp_patches_returns:
  assumes "stamp_patches mk offs (copy_for_marker_stamping cr (cr_from_image_args w h))
      = Some (Inr r)"
  shows "offs = []"
proof (cases offs)
  case Nil
  then show ?thesis .
next
  case (Cons off rest)
  with assms stamp_patches_no_state [OF raster_cr_no_state, of mk off rest cr w h]
  show ?thesis by simp
qed

text \<open>A call of \<open>draw_markers\<close> that returns has drawn no patch.\<close>

lemma draw_markers_never_stamps:
  assumes "draw_markers g args = Some (Inr (g', Stamped n offs ps))"
  shows "offs = []"
  using assms unfolding draw_markers_def Let_def
  by (auto elim!: and_then_opt_InrE split: if_splits dest!: stamp_patches_returns)

text \<open>
  C9 fails on the code: on a raster surface with a threshold of 1 and two marker
  positions the grid has one patch, which is fewer than the positions, and the call ends
  with the runtime error of \<^verbatim>\<open>get_additional_state(cairo_t*)\<close> when it draws the
  patch, instead of drawing the markers through the grid.
\<close>

theorem draw_markers_stamping_raises:
  "has_vector_surface
      (gcr_cr (new_GraphicsContextRenderer (cr_from_image_args 4 4) 4 4 72 (0, 0, 0, 1) 1))
     = Inr False
   \<and> marker_n_subpix (Fin 1) = 1
   \<and> marker_patterns (Fin 1) 2
   \<and> draw_markers
       (new_GraphicsContextRenderer (cr_from_image_args 4 4) 4 4 72 (0, 0, 0, 1) 1)
       \<lparr>dm_gc_is_this = True,
        dm_marker_is_unit_circle = False,
        dm_marker_path =
          \<lparr>vertices = \<lparr>shape0 = 2, shape1 = 2, elem = (\<lambda>i j. Fin (real i))\<rparr>,
           codes = Some [MOVETO, LINETO]\<rparr>,
        dm_marker_transform = \<lparr>is_affine = Some True,
          as_array = \<lparr>shape0 = 3, shape1 = 3,
                      elem = (\<lambda>i j. if i = j then Fin 1 else Fin 0)\<rparr>\<rparr>,
        dm_vertices = \<lparr>shape0 = 2, shape1 = 2, elem = (\<lambda>i j. Fin (real i + 1))\<rparr>,
        dm_transform = \<lparr>is_affine = Some True,
          as_array = \<lparr>shape0 = 3, shape1 = 3,
                      elem = (\<lambda>i j. if i = j then Fin 1 else Fin 0)\<rparr>\<rparr>,
        dm_fc_raw = None,
        dm_simplify_threshold = Fin 1,
        dm_stroke_extents = (- 1, - 1, 2, 2),
        dm_fill_extents = (0, 0, 0, 0)\<rparr>
     = Some (Inl (runtime_error ''cairo_t* missing additional state''))"
proof -
  let ?G = "new_GraphicsContextRenderer (cr_from_image_args 4 4) 4 4 72 (0, 0, 0, 1) 1"
  let ?MP = "\<lparr>vertices = \<lparr>shape0 = 2, shape1 = 2, elem = (\<lambda>i j. Fin (real i))\<rparr>,
           codes = Some [MOVETO, LINETO]\<rparr>"
  have v: "has_vector_surface (gcr_cr ?G) = Inr False"
    by (simp add: has_vector_surface_def new_GraphicsContextRenderer_def cr_from_image_args_def)
  have n: "marker_n_subpix (Fin 1) = 1" by (rule marker_n_subpix_1)
  have p: "marker_patterns (Fin 1) 2" by (simp add: marker_patterns_def n)
  have offs: "stamp_offsets 1 x0 y0 = [(- x0, - y0)]" for x0 y0
    by (simp add: stamp_offsets_def)
  have d: "draw_markers ?G
       \<lparr>dm_gc_is_this = True,
        dm_marker_is_unit_circle = False,
        dm_marker_path = ?MP,
        dm_marker_transform = \<lparr>is_affine = Some True,
          as_array = \<lparr>shape0 = 3, shape1 = 3,
                      elem = (\<lambda>i j. if i = j then Fin 1 else Fin 0)\<rparr>\<rparr>,
        dm_vertices = \<lparr>shape0 = 2, shape1 = 2, elem = (\<lambda>i j. Fin (real i + 1))\<rparr>,
        dm_transform = \<lparr>is_affine = Some True,
          as_array = \<lparr>shape0 = 3, shape1 = 3,
                      elem = (\<lambda>i j. if i = j then Fin 1 else Fin 0)\<rparr>\<rparr>,
        dm_fc_raw = None,
        dm_simplify_threshold = Fin 1,
        dm_stroke_extents = (- 1, - 1, 2, 2),
        dm_fill_extents = (0, 0, 0, 0)\<rparr>
     = Some (Inl (runtime_error ''cairo_t* missing additional state''))"
    by (simp add: draw_markers_def Let_def and_then_opt_simps v n p offs
        AdditionalContext_def get_rgba_def get_additional_state_def
        update_additional_state_def matrix_from_transform_def
        new_GraphicsContextRenderer_def cr_from_image_args_def cairo_save_def
        cairo_set_source_rgba_def cairo_set_antialias_def resolve_antialias_def
        has_vector_surface_def
        load_path_exact_def load_path_exact_codes_def and_then_def path_snap_def
        get_additional_state_cr_def cairo_new_path_def
        load_path_loop.simps load_path_step_def vertex_at_def
        cairo_matrix_transform_point_def std_clamp_def coord_min_def coord_max_def
        snapper_general_def cairo_move_to_def cairo_line_to_def
        draw_one_marker_def fill_and_stroke_exact_def copy_for_marker_stamping_def
        cairo_set_line_width_def load_path_exact_codeless_def)
  from v n p d show ?thesis by blast
qed

text \<open>The loading of a path and the drawing of a marker leave the state stack alone.\<close>

lemma state_stack_path_ops:
  "state_stack (cairo_new_path cr) = state_stack cr"
  "state_stack (cairo_new_sub_path cr) = state_stack cr"
  "state_stack (cairo_move_to x y cr) = state_stack cr"
  "state_stack (cairo_line_to x y cr) = state_stack cr"
  "state_stack (cairo_curve_to x1 y1 x2 y2 x3 y3 cr) = state_stack cr"
  "state_stack (cairo_close_path cr) = state_stack cr"
  "state_stack (cairo_set_source_rgba c cr) = state_stack cr"
  "state_stack (cairo_set_line_width w cr) = state_stack cr"
  "state_stack (cairo_stroke cr) = state_stack cr"
  by (simp_all add: cairo_new_path_def cairo_new_sub_path_def cairo_move_to_def
      cairo_line_to_def cairo_curve_to_def cairo_close_path_def cairo_set_source_rgba_def
      cairo_set_line_width_def cairo_stroke_def Let_def split: option.splits)

lemma state_stack_append_path:
  "state_stack (cairo_append_path ds cr) = state_stack cr"
  by (induction ds arbitrary: cr)
    (simp_all add: state_stack_path_ops split: cairo_path_data_t.splits)

lemma state_stack_load_path_step:
  assumes "load_path_step S m vs cs i cr = Inr r"
  shows "state_stack (snd r) = state_stack cr"
  using assms unfolding load_path_step_def Let_def
  by (cases "cs ! i")
    (auto elim!: and_then_InrE simp: state_stack_path_ops split: if_splits)

lemma state_stack_load_path_loop:
  assumes "load_path_loop S m vs cs n i cr = Inr cr'"
  shows "state_stack cr' = state_stack cr"
  using assms
proof (induction S m vs cs n i cr rule: load_path_loop.induct)
  case (1 S m vs cs n i cr)
  show ?case
  proof (cases "i < n")
    case False
    with "1.prems" show ?thesis by (subst (asm) load_path_loop.simps) simp
  next
    case True
    with "1.prems" obtain r where
      r: "load_path_step S m vs cs i cr = Inr r"
        "load_path_loop S m vs cs n (i + fst r + 1) (snd r) = Inr cr'"
      by (subst (asm) load_path_loop.simps) (simp split: sum.splits)
    from "1.IH" [OF True r(1) r(2)] state_stack_load_path_step [OF r(1)]
    show ?thesis by simp
  qed
qed

lemma state_stack_load_path_exact:
  assumes "load_path_exact cr p m = Some (Inr cr')"
  shows "state_stack cr' = state_stack cr"
proof (cases "codes p")
  case None
  with assms show ?thesis
    by (auto simp: load_path_exact_def load_path_exact_codeless_def Let_def
          state_stack_append_path state_stack_path_ops
        split: if_splits sum.splits option.splits)
next
  case (Some cs)
  with assms show ?thesis
    by (auto simp: load_path_exact_def load_path_exact_codes_def Let_def
          state_stack_path_ops
        split: if_splits elim!: and_then_InrE dest!: state_stack_load_path_loop)
qed

lemma state_stack_fill_and_stroke_exact:
  assumes "fill_and_stroke_exact cr uc p m fill stroke = Some (Inr cr')"
  shows "state_stack cr' = state_stack cr"
  using assms unfolding fill_and_stroke_exact_def Let_def
  by (auto elim!: and_then_opt_InrE split: option.splits if_splits
      dest!: state_stack_load_path_exact
      simp: state_stack_path_ops state_stack_cairo_save state_stack_cairo_restore)

lemma state_stack_draw_direct:
  "draw_direct mk vs m is cr = Some (Inr r) \<Longrightarrow> state_stack (fst r) = state_stack cr"
proof (induction "is" arbitrary: cr r)
  case Nil
  then show ?case by auto
next
  case (Cons i "is")
  then show ?case
    by (auto simp: state_stack_cairo_save state_stack_cairo_restore draw_one_marker_def
        split: sum.splits option.splits
        elim!: and_then_opt_InrE dest!: state_stack_fill_and_stroke_exact)
qed

text \<open>
  \<open>draw_markers\<close> has one exit, after the flag is set back: a call that returns leaves
  the whole state stack as it found it.
\<close>

lemma draw_markers_state_stack:
  assumes "draw_markers g args = Some (Inr (g', d))"
  shows "state_stack (gcr_cr g') = state_stack (gcr_cr g)"
  using assms unfolding draw_markers_def Let_def
  by (auto elim!: and_then_opt_InrE split: if_splits
      dest!: state_stack_draw_direct state_stack_AdditionalContext state_stack_load_path_exact
      simp: state_stack_AdditionalContext_exit get_additional_state_def
        update_additional_state_def split: option.splits list.splits)

end
